theory Spec2Isabelle
  imports Complex_Main "HOL-Library.Multiset"
begin

section \<open>Values\<close>

text \<open>
  The cleaning script works on a pandas table whose numeric cells are binary64 floats.
  A cell is modelled by \<open>fval\<close>: \<open>NaN\<close> (which is also how pandas stores a
  missing value), the two infinities, or a finite number. A finite number is kept as
  the exact rational the computation denotes: rounding to 53 bits and underflow are
  not modelled, overflow to an infinity is (\<open>ovf\<close>).
\<close>

datatype fval = NaN | NInf | Fin rat | PInf

text \<open>
  The least magnitude that round-to-nearest-even sends to an infinity: halfway between
  the largest binary64 number \<open>2^1024 - 2^971\<close> and \<open>2^1024\<close>.
\<close>

definition DBL_OVERFLOW :: rat where
  "DBL_OVERFLOW = 2 ^ 1024 - 2 ^ 970"

definition ovf :: "rat \<Rightarrow> fval" where
  "ovf q = (if DBL_OVERFLOW \<le> q then PInf else if q \<le> - DBL_OVERFLOW then NInf else Fin q)"

text \<open>Comparisons of floats: every comparison with \<open>NaN\<close> is false.\<close>

fun flt :: "fval \<Rightarrow> fval \<Rightarrow> bool" where
  "flt NaN _ = False"
| "flt _ NaN = False"
| "flt PInf _ = False"
| "flt _ NInf = False"
| "flt NInf _ = True"
| "flt _ PInf = True"
| "flt (Fin a) (Fin b) = (a < b)"

fun feq :: "fval \<Rightarrow> fval \<Rightarrow> bool" where
  "feq NaN _ = False"
| "feq _ NaN = False"
| "feq a b = (a = b)"

definition fge :: "fval \<Rightarrow> fval \<Rightarrow> bool" where
  "fge a b = (flt b a \<or> feq a b)"

definition isna :: "fval \<Rightarrow> bool" where
  "isna v = (v = NaN)"

text \<open>Float addition and multiplication, with the IEEE rules for the special values.\<close>

fun fadd :: "fval \<Rightarrow> fval \<Rightarrow> fval" where
  "fadd NaN _ = NaN"
| "fadd _ NaN = NaN"
| "fadd PInf NInf = NaN"
| "fadd NInf PInf = NaN"
| "fadd PInf _ = PInf"
| "fadd _ PInf = PInf"
| "fadd NInf _ = NInf"
| "fadd _ NInf = NInf"
| "fadd (Fin a) (Fin b) = ovf (a + b)"

definition inf_of_sign :: "bool \<Rightarrow> fval" where
  "inf_of_sign neg = (if neg then NInf else PInf)"

fun fmul :: "fval \<Rightarrow> fval \<Rightarrow> fval" where
  "fmul NaN _ = NaN"
| "fmul _ NaN = NaN"
| "fmul (Fin a) (Fin b) = ovf (a * b)"
| "fmul (Fin a) PInf = (if a = 0 then NaN else inf_of_sign (a < 0))"
| "fmul (Fin a) NInf = (if a = 0 then NaN else inf_of_sign (0 < a))"
| "fmul PInf (Fin b) = (if b = 0 then NaN else inf_of_sign (b < 0))"
| "fmul NInf (Fin b) = (if b = 0 then NaN else inf_of_sign (0 < b))"
| "fmul PInf PInf = PInf"
| "fmul NInf NInf = PInf"
| "fmul PInf NInf = NInf"
| "fmul NInf PInf = NInf"

fun fhalf :: "fval \<Rightarrow> fval" where
  "fhalf (Fin a) = Fin (a / 2)"
| "fhalf v = v"

text \<open>\<open>Series.fillna(m)\<close> on one cell, and \<open>Series.clip(lower=l)\<close> on one cell.\<close>

definition fillna :: "fval \<Rightarrow> fval \<Rightarrow> fval" where
  "fillna m v = (if isna v then m else v)"

definition clip_lower :: "fval \<Rightarrow> fval \<Rightarrow> fval" where
  "clip_lower l v = (if flt v l then l else v)"

section \<open>Text\<close>

text \<open>
  Python strings are modelled as lists of characters, read as ASCII text: a character
  outside ASCII counts as neither a digit, a space nor a letter.
\<close>

definition isdigit :: "char \<Rightarrow> bool" where
  "isdigit c = (48 \<le> (of_char c :: nat) \<and> (of_char c :: nat) \<le> 57)"

definition isspace :: "char \<Rightarrow> bool" where
  "isspace c = (let n = (of_char c :: nat) in (9 \<le> n \<and> n \<le> 13) \<or> (28 \<le> n \<and> n \<le> 32))"

definition lower_char :: "char \<Rightarrow> char" where
  "lower_char c = (let n = (of_char c :: nat) in if 65 \<le> n \<and> n \<le> 90 then char_of (n + 32) else c)"

definition upper_char :: "char \<Rightarrow> char" where
  "upper_char c = (let n = (of_char c :: nat) in if 97 \<le> n \<and> n \<le> 122 then char_of (n - 32) else c)"

text \<open>\<open>str.strip()\<close>, \<open>str.lower()\<close> and \<open>str.capitalize()\<close>.\<close>

definition strip :: "string \<Rightarrow> string" where
  "strip s = rev (dropWhile isspace (rev (dropWhile isspace s)))"

definition lower :: "string \<Rightarrow> string" where
  "lower s = map lower_char s"

fun capitalize :: "string \<Rightarrow> string" where
  "capitalize [] = []"
| "capitalize (c # cs) = upper_char c # lower cs"

text \<open>The value of a string of decimal digits.\<close>

definition digit_val :: "char \<Rightarrow> nat" where
  "digit_val c = of_char c - 48"

definition digits_val :: "string \<Rightarrow> nat" where
  "digits_val s = foldl (\<lambda>a c. 10 * a + digit_val c) 0 s"

section \<open>The cost parser\<close>

datatype error = ValueError

text \<open>
  A raw cell of the input table: missing (\<open>None\<close> or \<open>NaN\<close>), a number, or text.
\<close>

datatype raw = RNull | RNum fval | RStr string

text \<open>
  Python's \<open>float(s)\<close> on text made of digits and \<open>.\<close> only, which is all that
  \<open>re.sub(r'[^\d.]', '', value_str)\<close> leaves: the text is a number when it has at
  most one point and at least one digit, and the conversion is correctly rounded, so
  it overflows to \<open>inf\<close> exactly from \<open>DBL_OVERFLOW\<close> on. Any other text raises
  \<open>ValueError\<close>.
\<close>

definition py_float :: "string \<Rightarrow> error + fval" where
  "py_float s =
     (let ip = takeWhile isdigit s; r = dropWhile isdigit s in
      case r of
        [] \<Rightarrow> if ip = [] then Inl ValueError else Inr (ovf (of_nat (digits_val ip)))
      | c # fp \<Rightarrow>
          if c = CHR ''.'' \<and> list_all isdigit fp
          then (if ip = [] \<and> fp = [] then Inl ValueError
                else Inr (ovf (of_nat (digits_val (ip @ fp)) / 10 ^ length fp)))
          else Inl ValueError)"

text \<open>\<open>re.sub(r'[^\d.]', '', s)\<close>: keep the digits and the points.\<close>

definition re_sub_nondigit :: "string \<Rightarrow> string" where
  "re_sub_nondigit s = filter (\<lambda>c. isdigit c \<or> c = CHR ''.'') s"

text \<open>
  \<open>clean_cost\<close> of the script. \<open>py_str\<close> is Python's \<open>str\<close> on a float, the text
  a numeric cell is turned into before it is parsed.
\<close>

definition clean_cost_str :: "string \<Rightarrow> fval" where
  "clean_cost_str s =
     (let value_str = strip s in
      if \<not> list_ex isdigit value_str then NaN
      else (case py_float (re_sub_nondigit value_str) of
              Inl ValueError \<Rightarrow> NaN
            | Inr x \<Rightarrow> x))"

fun clean_cost :: "(fval \<Rightarrow> string) \<Rightarrow> raw \<Rightarrow> fval" where
  "clean_cost py_str RNull = NaN"
| "clean_cost py_str (RNum v) = (if isna v then NaN else clean_cost_str (py_str v))"
| "clean_cost py_str (RStr s) = clean_cost_str s"

section \<open>The stock parser\<close>

text \<open>
  \<open>pd.to_numeric(column, errors='coerce')\<close> on one cell. A missing cell stays missing
  and a number is kept. Text goes through the C routine \<open>xstrtod\<close> of pandas, which
  reads optional white space, an optional sign, digits with an optional point, an
  optional exponent and optional white space, and succeeds only if that is the whole
  text and at least one digit was read; failing that, the words \<open>inf\<close> and
  \<open>infinity\<close> (any case, optional sign) are accepted; any other text is an error,
  which \<open>errors='coerce'\<close> turns into \<open>NaN\<close>. The routine's accumulation of the
  digits is idealised: the value is the exact value of the literal, and a literal that
  overflows is an error of the routine.
\<close>

definition isspace_ascii :: "char \<Rightarrow> bool" where
  "isspace_ascii c = (let n = (of_char c :: nat) in n = 32 \<or> (9 \<le> n \<and> n \<le> 13))"

definition take_sign :: "string \<Rightarrow> bool \<times> string" where
  "take_sign s =
     (case s of
        [] \<Rightarrow> (False, [])
      | c # cs \<Rightarrow> if c = CHR ''-'' then (True, cs) else if c = CHR ''+'' then (False, cs) else (False, s))"

definition take_fraction :: "string \<Rightarrow> string \<times> string" where
  "take_fraction r =
     (case r of
        [] \<Rightarrow> ([], [])
      | c # cs \<Rightarrow> if c = CHR ''.'' then (takeWhile isdigit cs, dropWhile isdigit cs) else ([], r))"

text \<open>The exponent part: its value and the text after it, or \<open>None\<close> when an
  \<open>e\<close> is followed by no digit (the routine then stops on the \<open>e\<close>).\<close>

definition take_exponent :: "string \<Rightarrow> (int \<times> string) option" where
  "take_exponent r =
     (case r of
        [] \<Rightarrow> Some (0, [])
      | c # cs \<Rightarrow>
          if c = CHR ''e'' \<or> c = CHR ''E'' then
            (let (neg, ds) = take_sign cs; ed = takeWhile isdigit ds in
             if ed = [] then None
             else Some ((if neg then - int (digits_val ed) else int (digits_val ed)),
                        dropWhile isdigit ds))
          else Some (0, r))"

definition scale10 :: "rat \<Rightarrow> int \<Rightarrow> rat" where
  "scale10 m e = (if 0 \<le> e then m * 10 ^ nat e else m / 10 ^ nat (- e))"

definition xstrtod :: "string \<Rightarrow> fval option" where
  "xstrtod s =
     (let (neg, s1) = take_sign (dropWhile isspace_ascii s);
          ip = takeWhile isdigit s1;
          (fp, s2) = take_fraction (dropWhile isdigit s1)
      in if ip = [] \<and> fp = [] then None
         else (case take_exponent s2 of
                 None \<Rightarrow> None
               | Some (e, s3) \<Rightarrow>
                   if dropWhile isspace_ascii s3 \<noteq> [] then None
                   else (let m = scale10 (of_nat (digits_val (ip @ fp))) (e - int (length fp));
                             q = (if neg then - m else m)
                         in if DBL_OVERFLOW \<le> \<bar>q\<bar> then None else Some (Fin q))))"

definition inf_word :: "string \<Rightarrow> fval option" where
  "inf_word s =
     (let l = lower s in
      if l = ''inf'' \<or> l = ''+inf'' \<or> l = ''infinity'' \<or> l = ''+infinity'' then Some PInf
      else if l = ''-inf'' \<or> l = ''-infinity'' then Some NInf
      else None)"

fun to_numeric :: "raw \<Rightarrow> fval" where
  "to_numeric RNull = NaN"
| "to_numeric (RNum v) = v"
| "to_numeric (RStr s) =
     (if s = [] then NaN
      else (case xstrtod s of
              Some v \<Rightarrow> v
            | None \<Rightarrow> (case inf_word s of Some v \<Rightarrow> v | None \<Rightarrow> NaN)))"

text \<open>The characters that can occur in a number.\<close>

definition numeric_char :: "char \<Rightarrow> bool" where
  "numeric_char c =
     (isdigit c \<or> isspace_ascii c \<or> c = CHR ''+'' \<or> c = CHR ''-'' \<or> c = CHR ''.'' \<or>
      c = CHR ''e'' \<or> c = CHR ''E'')"

section \<open>The median\<close>

text \<open>
  \<open>Series.median()\<close>: missing values are skipped, the rest is sorted, and the result is
  the middle value, or the mean of the two middle values; it is \<open>NaN\<close> when nothing is
  left.
\<close>

fun insort_f :: "fval \<Rightarrow> fval list \<Rightarrow> fval list" where
  "insort_f x [] = [x]"
| "insort_f x (y # ys) = (if flt y x then y # insort_f x ys else x # y # ys)"

fun sort_f :: "fval list \<Rightarrow> fval list" where
  "sort_f [] = []"
| "sort_f (x # xs) = insort_f x (sort_f xs)"

definition median :: "fval list \<Rightarrow> fval" where
  "median vs =
     (let xs = sort_f (filter (\<lambda>v. \<not> isna v) vs); n = length xs in
      if n = 0 then NaN
      else if odd n then xs ! (n div 2)
      else fhalf (fadd (xs ! (n div 2 - 1)) (xs ! (n div 2))))"

text \<open>
  What a median is, apart from how \<open>median\<close> finds it: the values that are present,
  a list in ascending order, and the middle of such a list (the value in the middle, or
  the mean of the two in the middle).
\<close>

definition present :: "fval list \<Rightarrow> fval list" where
  "present vs = filter (\<lambda>v. v \<noteq> NaN) vs"

definition ascending :: "fval list \<Rightarrow> bool" where
  "ascending ys = sorted_wrt (\<lambda>a b. \<not> flt b a) ys"

definition middle_value :: "fval list \<Rightarrow> fval" where
  "middle_value ys =
     (let n = length ys in
      if n = 0 then NaN
      else if odd n then ys ! (n div 2)
      else fhalf (fadd (ys ! (n div 2 - 1)) (ys ! (n div 2))))"

section \<open>The table and the pipeline\<close>

text \<open>
  A row of the table read from the input file, and a row of the table that is written.
  The six columns that both tables have are the fields of \<open>common_row\<close>.
\<close>

record common_row =
  Product_ID :: string
  Category :: string
  Daily_Demand_Est :: fval
  Safety_Stock_Target :: fval
  Vendor_Name :: string
  Lead_Time_Days :: fval

record raw_row = common_row +
  Unit_Cost_Raw :: raw
  Current_Stock_Raw :: raw

record clean_row = common_row +
  Unit_Cost :: fval
  Current_Stock :: fval
  Reorder_Point :: fval
  Stock_Status :: string
  Inventory_Value :: fval

text \<open>
  The script assigns whole columns, one statement after the other; each statement is
  one definition below, a column being the list of its cells in row order.
\<close>

text \<open>2.1 and 2.6: \<open>df['Product_ID'].str.strip()\<close>, \<open>df['Vendor_Name'].str.strip()\<close>.\<close>

definition Product_ID_col :: "raw_row list \<Rightarrow> string list" where
  "Product_ID_col df = map (\<lambda>r. strip (Product_ID r)) df"

definition Vendor_Name_col :: "raw_row list \<Rightarrow> string list" where
  "Vendor_Name_col df = map (\<lambda>r. strip (Vendor_Name r)) df"

text \<open>2.2: \<open>df['Category'].str.strip().str.capitalize()\<close>.\<close>

definition normalize_category :: "string \<Rightarrow> string" where
  "normalize_category s = capitalize (strip s)"

definition Category_col :: "raw_row list \<Rightarrow> string list" where
  "Category_col df = map (\<lambda>r. normalize_category (Category r)) df"

text \<open>2.3: \<open>df['Unit_Cost_Raw'].apply(clean_cost)\<close>.\<close>

definition Unit_Cost_parsed :: "(fval \<Rightarrow> string) \<Rightarrow> raw_row list \<Rightarrow> fval list" where
  "Unit_Cost_parsed py_str df = map (\<lambda>r. clean_cost py_str (Unit_Cost_Raw r)) df"

text \<open>2.4: \<open>pd.to_numeric\<close>, then every value below zero is set to zero;
  2.5: \<open>fillna(0)\<close>.\<close>

definition Current_Stock_numeric :: "raw_row list \<Rightarrow> fval list" where
  "Current_Stock_numeric df = map (\<lambda>r. to_numeric (Current_Stock_Raw r)) df"

definition Current_Stock_nonneg :: "raw_row list \<Rightarrow> fval list" where
  "Current_Stock_nonneg df = map (\<lambda>v. if flt v (Fin 0) then Fin 0 else v) (Current_Stock_numeric df)"

definition Current_Stock_col :: "raw_row list \<Rightarrow> fval list" where
  "Current_Stock_col df = map (fillna (Fin 0)) (Current_Stock_nonneg df)"

text \<open>
  2.5: \<open>df.groupby('Category')['Unit_Cost'].transform(lambda x: x.fillna(x.median()))\<close>:
  each cell is filled with the median of the cells of the rows of its category; then
  \<open>df['Unit_Cost'].fillna(df['Unit_Cost'].median())\<close>, the median being that of the
  column as the first fill left it.
\<close>

definition group_values :: "string list \<Rightarrow> fval list \<Rightarrow> string \<Rightarrow> fval list" where
  "group_values cats vals c = map snd (filter (\<lambda>(c', v). c' = c) (zip cats vals))"

definition fill_by_category :: "string list \<Rightarrow> fval list \<Rightarrow> fval list" where
  "fill_by_category cats vals =
     map (\<lambda>(c, v). fillna (median (group_values cats vals c)) v) (zip cats vals)"

definition Unit_Cost_by_category :: "(fval \<Rightarrow> string) \<Rightarrow> raw_row list \<Rightarrow> fval list" where
  "Unit_Cost_by_category py_str df = fill_by_category (Category_col df) (Unit_Cost_parsed py_str df)"

definition Unit_Cost_col :: "(fval \<Rightarrow> string) \<Rightarrow> raw_row list \<Rightarrow> fval list" where
  "Unit_Cost_col py_str df =
     map (fillna (median (Unit_Cost_by_category py_str df))) (Unit_Cost_by_category py_str df)"

text \<open>2.7: \<open>clip(lower=0)\<close> on the demand and the safety stock, \<open>clip(lower=1)\<close> on
  the lead time.\<close>

definition Daily_Demand_Est_col :: "raw_row list \<Rightarrow> fval list" where
  "Daily_Demand_Est_col df = map (\<lambda>r. clip_lower (Fin 0) (Daily_Demand_Est r)) df"

definition Safety_Stock_Target_col :: "raw_row list \<Rightarrow> fval list" where
  "Safety_Stock_Target_col df = map (\<lambda>r. clip_lower (Fin 0) (Safety_Stock_Target r)) df"

definition Lead_Time_Days_col :: "raw_row list \<Rightarrow> fval list" where
  "Lead_Time_Days_col df = map (\<lambda>r. clip_lower (Fin 1) (Lead_Time_Days r)) df"

text \<open>2.8: the derived columns.\<close>

definition reorder_point :: "fval \<Rightarrow> fval \<Rightarrow> fval \<Rightarrow> fval" where
  "reorder_point demand lead_time safety = fadd (fmul demand lead_time) safety"

definition Reorder_Point_col :: "raw_row list \<Rightarrow> fval list" where
  "Reorder_Point_col df =
     map (\<lambda>i. reorder_point (Daily_Demand_Est_col df ! i) (Lead_Time_Days_col df ! i)
                 (Safety_Stock_Target_col df ! i)) [0..<length df]"

definition stock_status :: "fval \<Rightarrow> fval \<Rightarrow> string" where
  "stock_status current_stock reorder =
     (if feq current_stock (Fin 0) then ''Out of Stock''
      else if flt current_stock reorder then ''Low Stock''
      else ''Normal Stock'')"

definition Stock_Status_col :: "raw_row list \<Rightarrow> string list" where
  "Stock_Status_col df =
     map (\<lambda>i. stock_status (Current_Stock_col df ! i) (Reorder_Point_col df ! i)) [0..<length df]"

definition Inventory_Value_col :: "(fval \<Rightarrow> string) \<Rightarrow> raw_row list \<Rightarrow> fval list" where
  "Inventory_Value_col py_str df =
     map (\<lambda>i. fmul (Current_Stock_col df ! i) (Unit_Cost_col py_str df ! i)) [0..<length df]"

text \<open>
  3: \<open>df[output_columns]\<close>, the table that is written and returned: row \<open>i\<close> holds
  cell \<open>i\<close> of each of the eleven columns.
\<close>

definition clean_supply_chain_data :: "(fval \<Rightarrow> string) \<Rightarrow> raw_row list \<Rightarrow> clean_row list" where
  "clean_supply_chain_data py_str df =
     map (\<lambda>i. \<lparr> Product_ID = Product_ID_col df ! i,
                 Category = Category_col df ! i,
                 Daily_Demand_Est = Daily_Demand_Est_col df ! i,
                 Safety_Stock_Target = Safety_Stock_Target_col df ! i,
                 Vendor_Name = Vendor_Name_col df ! i,
                 Lead_Time_Days = Lead_Time_Days_col df ! i,
                 Unit_Cost = Unit_Cost_col py_str df ! i,
                 Current_Stock = Current_Stock_col df ! i,
                 Reorder_Point = Reorder_Point_col df ! i,
                 Stock_Status = Stock_Status_col df ! i,
                 Inventory_Value = Inventory_Value_col py_str df ! i \<rparr>) [0..<length df]"

section \<open>The raw schema\<close>

text \<open>
  A row conforms to the schema of the input file when its Product_ID, Category and
  Vendor_Name cells hold text, its safety stock and its lead time are numbers and its
  daily demand is a number or missing (the generator leaves the demand of one row in
  twenty empty). The two raw columns may hold anything. That the three text cells hold
  text is the type of the fields of a row: a table with a missing text cell is outside
  the model, and nothing is stated about it.
\<close>

fun is_number :: "fval \<Rightarrow> bool" where
  "is_number (Fin q) = True"
| "is_number v = False"

definition conforms :: "raw_row \<Rightarrow> bool" where
  "conforms r =
     (is_number (Safety_Stock_Target r) \<and> is_number (Lead_Time_Days r) \<and>
      (is_number (Daily_Demand_Est r) \<or> isna (Daily_Demand_Est r)))"

section \<open>Example tables\<close>

text \<open>A rendering of numbers as text that is right for the number 42.5.\<close>

definition example_str :: "fval \<Rightarrow> string" where
  "example_str v = (if v = Fin 42.5 then ''42.5'' else ''nan'')"

definition row_pending :: raw_row where
  "row_pending =
     \<lparr> Product_ID = '' SKU-A1001 '', Category = ''ELECTRONICS'', Daily_Demand_Est = NaN,
       Safety_Stock_Target = Fin 60, Vendor_Name = ''Kyoto Crafts'', Lead_Time_Days = Fin 7,
       Unit_Cost_Raw = RStr ''Quote Pending'', Current_Stock_Raw = RStr ''150 pcs'' \<rparr>"

definition row_plain :: raw_row where
  "row_plain =
     \<lparr> Product_ID = ''SKU-B2002'', Category = ''electronics '', Daily_Demand_Est = Fin 4,
       Safety_Stock_Target = Fin 30, Vendor_Name = ''Osaka Supplies'', Lead_Time_Days = Fin 5,
       Unit_Cost_Raw = RStr ''$10.50'', Current_Stock_Raw = RStr ''7'' \<rparr>"

definition row_tidy :: raw_row where
  "row_tidy =
     \<lparr> Product_ID = ''SKU-C3003'', Category = ''Electronics'', Daily_Demand_Est = Fin 10,
       Safety_Stock_Target = Fin 80, Vendor_Name = ''Nagoya Parts'', Lead_Time_Days = Fin 3,
       Unit_Cost_Raw = RNum (Fin 42.5), Current_Stock_Raw = RNum (Fin (- 30)) \<rparr>"

text \<open>A table for the imputation of costs: three categories, one without any cost.\<close>

definition cost_row :: "string \<Rightarrow> raw \<Rightarrow> raw_row" where
  "cost_row c u =
     \<lparr> Product_ID = ''SKU-X1000'', Category = c, Daily_Demand_Est = Fin 1,
       Safety_Stock_Target = Fin 1, Vendor_Name = ''Tokyo Electronics'', Lead_Time_Days = Fin 3,
       Unit_Cost_Raw = u, Current_Stock_Raw = RNum (Fin 1) \<rparr>"

definition cost_table :: "raw_row list" where
  "cost_table =
     [cost_row ''Tools'' (RStr ''10''), cost_row ''Tools'' (RStr ''20''),
      cost_row ''Tools'' (RStr ''30''), cost_row ''Tools'' (RStr ''Quote Pending''),
      cost_row ''Home'' (RStr ''100''), cost_row ''Home'' (RStr ''200''),
      cost_row ''Food'' RNull]"

section \<open>Columns and rows\<close>

lemma length_cols [simp]:
  "length (Product_ID_col df) = length df"
  "length (Vendor_Name_col df) = length df"
  "length (Category_col df) = length df"
  "length (Unit_Cost_parsed py_str df) = length df"
  "length (Current_Stock_numeric df) = length df"
  "length (Current_Stock_nonneg df) = length df"
  "length (Current_Stock_col df) = length df"
  "length (Unit_Cost_by_category py_str df) = length df"
  "length (Unit_Cost_col py_str df) = length df"
  "length (Daily_Demand_Est_col df) = length df"
  "length (Safety_Stock_Target_col df) = length df"
  "length (Lead_Time_Days_col df) = length df"
  "length (Reorder_Point_col df) = length df"
  "length (Stock_Status_col df) = length df"
  "length (Inventory_Value_col py_str df) = length df"
  by (simp_all add: Product_ID_col_def Vendor_Name_col_def Category_col_def Unit_Cost_parsed_def
      Current_Stock_numeric_def Current_Stock_nonneg_def Current_Stock_col_def
      Unit_Cost_by_category_def fill_by_category_def Unit_Cost_col_def Daily_Demand_Est_col_def
      Safety_Stock_Target_col_def Lead_Time_Days_col_def Reorder_Point_col_def Stock_Status_col_def
      Inventory_Value_col_def)

lemma clean_nth:
  assumes "i < length df"
  shows "Product_ID (clean_supply_chain_data py_str df ! i) = Product_ID_col df ! i"
    and "Category (clean_supply_chain_data py_str df ! i) = Category_col df ! i"
    and "Daily_Demand_Est (clean_supply_chain_data py_str df ! i) = Daily_Demand_Est_col df ! i"
    and "Safety_Stock_Target (clean_supply_chain_data py_str df ! i) = Safety_Stock_Target_col df ! i"
    and "Vendor_Name (clean_supply_chain_data py_str df ! i) = Vendor_Name_col df ! i"
    and "Lead_Time_Days (clean_supply_chain_data py_str df ! i) = Lead_Time_Days_col df ! i"
    and "Unit_Cost (clean_supply_chain_data py_str df ! i) = Unit_Cost_col py_str df ! i"
    and "Current_Stock (clean_supply_chain_data py_str df ! i) = Current_Stock_col df ! i"
    and "Reorder_Point (clean_supply_chain_data py_str df ! i) = Reorder_Point_col df ! i"
    and "Stock_Status (clean_supply_chain_data py_str df ! i) = Stock_Status_col df ! i"
    and "Inventory_Value (clean_supply_chain_data py_str df ! i) = Inventory_Value_col py_str df ! i"
  using assms by (simp_all add: clean_supply_chain_data_def)

lemma Stock_Status_nth:
  "i < length df \<Longrightarrow>
   Stock_Status_col df ! i = stock_status (Current_Stock_col df ! i) (Reorder_Point_col df ! i)"
  by (simp add: Stock_Status_col_def)

lemma Reorder_Point_nth:
  "i < length df \<Longrightarrow>
   Reorder_Point_col df ! i =
     reorder_point (Daily_Demand_Est_col df ! i) (Lead_Time_Days_col df ! i)
       (Safety_Stock_Target_col df ! i)"
  by (simp add: Reorder_Point_col_def)

lemma Inventory_Value_nth:
  "i < length df \<Longrightarrow>
   Inventory_Value_col py_str df ! i = fmul (Current_Stock_col df ! i) (Unit_Cost_col py_str df ! i)"
  by (simp add: Inventory_Value_col_def)

section \<open>Comparisons with missing values\<close>

lemma flt_NaN_right [simp]: "flt v NaN = False"
  by (cases v) simp_all

lemma feq_Fin0: "v \<noteq> NaN \<Longrightarrow> feq v (Fin 0) = (v = Fin 0)"
  by (cases v) auto

lemma Current_Stock_not_nan: "i < length df \<Longrightarrow> Current_Stock_col df ! i \<noteq> NaN"
  by (simp add: Current_Stock_col_def Current_Stock_nonneg_def fillna_def isna_def)

section \<open>Row count\<close>

text \<open>
  Claim C9. The table that the pipeline returns has as many rows as the table it read:
  every column that a statement of the script assigns has one cell for each input row,
  so no stage drops or adds a row. Rows that are equal in the input, such as the
  duplicates the generator appends, are equal rows of the output, so a row repeated in
  the source is repeated as often in the result.
\<close>

theorem C9_row_count_preserved:
  "length (clean_supply_chain_data py_str df) = length df \<and>
   length (Product_ID_col df) = length df \<and>
   length (Category_col df) = length df \<and>
   length (Unit_Cost_parsed py_str df) = length df \<and>
   length (Current_Stock_numeric df) = length df \<and>
   length (Current_Stock_nonneg df) = length df \<and>
   length (Current_Stock_col df) = length df \<and>
   length (Unit_Cost_by_category py_str df) = length df \<and>
   length (Unit_Cost_col py_str df) = length df \<and>
   length (Vendor_Name_col df) = length df \<and>
   length (Daily_Demand_Est_col df) = length df \<and>
   length (Safety_Stock_Target_col df) = length df \<and>
   length (Lead_Time_Days_col df) = length df \<and>
   length (Reorder_Point_col df) = length df \<and>
   length (Stock_Status_col df) = length df \<and>
   length (Inventory_Value_col py_str df) = length df \<and>
   (\<forall>i<length df. \<forall>j<length df. df ! i = df ! j \<longrightarrow>
      clean_supply_chain_data py_str df ! i = clean_supply_chain_data py_str df ! j)"
proof -
  have rows: "length (clean_supply_chain_data py_str df) = length df"
    by (simp add: clean_supply_chain_data_def)
  have dup: "\<forall>i<length df. \<forall>j<length df. df ! i = df ! j \<longrightarrow>
      clean_supply_chain_data py_str df ! i = clean_supply_chain_data py_str df ! j"
    apply (simp add: clean_supply_chain_data_def)
    apply (simp add: Product_ID_col_def Vendor_Name_col_def Category_col_def Unit_Cost_parsed_def
        Current_Stock_numeric_def Current_Stock_nonneg_def Current_Stock_col_def
        Unit_Cost_by_category_def fill_by_category_def Unit_Cost_col_def Daily_Demand_Est_col_def
        Safety_Stock_Target_col_def Lead_Time_Days_col_def Reorder_Point_col_def
        Stock_Status_col_def Inventory_Value_col_def)
    done
  show ?thesis by (intro conjI rows dup length_cols)
qed

theorem C9_row_count_preserved_witness:
  "length (clean_supply_chain_data example_str [row_plain, row_pending, row_plain]) = 3 \<and>
   clean_supply_chain_data example_str [row_plain, row_pending, row_plain] ! 0 =
   clean_supply_chain_data example_str [row_plain, row_pending, row_plain] ! 2"
proof -
  note h = C9_row_count_preserved [of example_str "[row_plain, row_pending, row_plain]"]
  from h have "length (clean_supply_chain_data example_str [row_plain, row_pending, row_plain]) =
      length [row_plain, row_pending, row_plain]"
    by blast
  then have rows: "length (clean_supply_chain_data example_str [row_plain, row_pending, row_plain]) = 3"
    by simp
  from h have dup: "\<forall>i<length [row_plain, row_pending, row_plain].
      \<forall>j<length [row_plain, row_pending, row_plain].
        [row_plain, row_pending, row_plain] ! i = [row_plain, row_pending, row_plain] ! j \<longrightarrow>
        clean_supply_chain_data example_str [row_plain, row_pending, row_plain] ! i =
        clean_supply_chain_data example_str [row_plain, row_pending, row_plain] ! j"
    by blast
  have "clean_supply_chain_data example_str [row_plain, row_pending, row_plain] ! 0 =
      clean_supply_chain_data example_str [row_plain, row_pending, row_plain] ! 2"
    by (rule dup [rule_format, of 0 2]) simp_all
  with rows show ?thesis by (rule conjI)
qed

section \<open>Stock status\<close>

text \<open>
  Claim C5. In every row of the result, Stock_Status is "Out of Stock" if Current_Stock
  is exactly 0, otherwise "Low Stock" if Current_Stock is below Reorder_Point, otherwise
  "Normal Stock". So a stock of 0 gives "Out of Stock" whatever the reorder point, a
  stock of 5 with reorder point 10 gives "Low Stock", and a stock of 50 with reorder
  point 10 gives "Normal Stock".
\<close>

theorem C5_stock_status_rule:
  "(\<forall>i<length df.
      Stock_Status (clean_supply_chain_data py_str df ! i) =
        (if Current_Stock (clean_supply_chain_data py_str df ! i) = Fin 0 then ''Out of Stock''
         else if flt (Current_Stock (clean_supply_chain_data py_str df ! i))
                     (Reorder_Point (clean_supply_chain_data py_str df ! i)) then ''Low Stock''
         else ''Normal Stock'')) \<and>
   stock_status (Fin 0) rp = ''Out of Stock'' \<and>
   stock_status (Fin 5) (Fin 10) = ''Low Stock'' \<and>
   stock_status (Fin 50) (Fin 10) = ''Normal Stock''"
  by (simp add: clean_nth Stock_Status_nth stock_status_def feq_Fin0 Current_Stock_not_nan)

theorem C5_stock_status_rule_witness:
  "Stock_Status (clean_supply_chain_data example_str [row_plain, row_pending] ! 0) = ''Low Stock'' \<and>
   Stock_Status (clean_supply_chain_data example_str [row_plain, row_pending] ! 1) = ''Out of Stock''"
proof -
  note h = C5_stock_status_rule [of "[row_plain, row_pending]" example_str NaN]
  have c0: "Current_Stock (clean_supply_chain_data example_str [row_plain, row_pending] ! 0) = Fin 7"
    by (simp add: clean_nth Current_Stock_col_def Current_Stock_nonneg_def
        Current_Stock_numeric_def row_plain_def fillna_def isna_def xstrtod_def take_sign_def
        take_fraction_def take_exponent_def scale10_def isspace_ascii_def isdigit_def
        digits_val_def digit_val_def DBL_OVERFLOW_def)
  have c1: "Current_Stock (clean_supply_chain_data example_str [row_plain, row_pending] ! 1) = Fin 0"
    by (simp add: clean_nth Current_Stock_col_def Current_Stock_nonneg_def
        Current_Stock_numeric_def row_pending_def fillna_def isna_def xstrtod_def take_sign_def
        take_fraction_def take_exponent_def scale10_def isspace_ascii_def isdigit_def
        digits_val_def digit_val_def DBL_OVERFLOW_def inf_word_def lower_def lower_char_def)
  have r0: "Reorder_Point (clean_supply_chain_data example_str [row_plain, row_pending] ! 0) = Fin 50"
    by (simp add: clean_nth Reorder_Point_nth reorder_point_def Daily_Demand_Est_col_def
        Lead_Time_Days_col_def Safety_Stock_Target_col_def clip_lower_def row_plain_def ovf_def
        DBL_OVERFLOW_def)
  from h have
    "Stock_Status (clean_supply_chain_data example_str [row_plain, row_pending] ! 0) =
       (if Current_Stock (clean_supply_chain_data example_str [row_plain, row_pending] ! 0) = Fin 0
        then ''Out of Stock''
        else if flt (Current_Stock (clean_supply_chain_data example_str [row_plain, row_pending] ! 0))
                    (Reorder_Point (clean_supply_chain_data example_str [row_plain, row_pending] ! 0))
        then ''Low Stock'' else ''Normal Stock'')"
    by simp
  with c0 r0 have s0:
    "Stock_Status (clean_supply_chain_data example_str [row_plain, row_pending] ! 0) = ''Low Stock''"
    by simp
  from h have
    "Stock_Status (clean_supply_chain_data example_str [row_plain, row_pending] ! 1) =
       (if Current_Stock (clean_supply_chain_data example_str [row_plain, row_pending] ! 1) = Fin 0
        then ''Out of Stock''
        else if flt (Current_Stock (clean_supply_chain_data example_str [row_plain, row_pending] ! 1))
                    (Reorder_Point (clean_supply_chain_data example_str [row_plain, row_pending] ! 1))
        then ''Low Stock'' else ''Normal Stock'')"
    by simp
  with c1 have s1:
    "Stock_Status (clean_supply_chain_data example_str [row_plain, row_pending] ! 1) = ''Out of Stock''"
    by simp
  from s0 s1 show ?thesis by simp
qed

text \<open>
  Claim C10. In a row whose Daily_Demand_Est is missing after the validation step,
  Reorder_Point is missing too, and Stock_Status is "Out of Stock" when Current_Stock is
  0 and "Normal Stock" otherwise: the comparison of the stock with a missing reorder
  point is false, so the last branch is taken, and the row is never "Low Stock".
\<close>

theorem C10_missing_demand_status:
  assumes "i < length df"
    and "Daily_Demand_Est (clean_supply_chain_data py_str df ! i) = NaN"
  shows "Reorder_Point (clean_supply_chain_data py_str df ! i) = NaN \<and>
         Stock_Status (clean_supply_chain_data py_str df ! i) =
           (if Current_Stock (clean_supply_chain_data py_str df ! i) = Fin 0 then ''Out of Stock''
            else ''Normal Stock'') \<and>
         Stock_Status (clean_supply_chain_data py_str df ! i) \<noteq> ''Low Stock''"
  using assms
  by (simp add: clean_nth Stock_Status_nth Reorder_Point_nth reorder_point_def stock_status_def
      feq_Fin0 Current_Stock_not_nan)

theorem C10_missing_demand_status_witness:
  "Daily_Demand_Est (clean_supply_chain_data example_str [row_plain, row_pending] ! 1) = NaN \<and>
   Reorder_Point (clean_supply_chain_data example_str [row_plain, row_pending] ! 1) = NaN \<and>
   Stock_Status (clean_supply_chain_data example_str [row_plain, row_pending] ! 1) \<noteq> ''Low Stock''"
proof -
  have l: "1 < length [row_plain, row_pending]" by simp
  have d: "Daily_Demand_Est (clean_supply_chain_data example_str [row_plain, row_pending] ! 1) = NaN"
    by (simp add: clean_nth Daily_Demand_Est_col_def clip_lower_def row_pending_def)
  from C10_missing_demand_status [OF l d] d show ?thesis by simp
qed

section \<open>Category normalization\<close>

lemma map_Category_clean: "map Category (clean_supply_chain_data py_str df) = Category_col df"
  by (rule nth_equalityI) (simp_all add: clean_supply_chain_data_def)

lemma Category_nth:
  "i < length df \<Longrightarrow> Category_col df ! i = normalize_category (Category (df ! i))"
  by (simp add: Category_col_def)

text \<open>
  Claim C8. The Category of an output row is the input value trimmed and then
  capitalized: the first character in upper case and all the others in lower case, so
  that only the first letter is a capital. "ELECTRONICS", "electronics " and
  "Electronics" all become "Electronics" (and "home " becomes "Home"). Rows whose raw
  spellings normalize to the same text have the same output category, and the output
  categories are exactly the normalized input spellings.
\<close>

theorem C8_category_normalization:
  "(\<forall>i<length df.
      Category (clean_supply_chain_data py_str df ! i) = capitalize (strip (Category (df ! i)))) \<and>
   capitalize (c # cs) = upper_char c # map lower_char cs \<and>
   normalize_category ''ELECTRONICS'' = ''Electronics'' \<and>
   normalize_category ''electronics '' = ''Electronics'' \<and>
   normalize_category ''Electronics'' = ''Electronics'' \<and>
   normalize_category ''home '' = ''Home'' \<and>
   (\<forall>i<length df. \<forall>j<length df.
      normalize_category (Category (df ! i)) = normalize_category (Category (df ! j)) \<longrightarrow>
      Category (clean_supply_chain_data py_str df ! i) =
      Category (clean_supply_chain_data py_str df ! j)) \<and>
   set (map Category (clean_supply_chain_data py_str df)) = normalize_category ` Category ` set df"
proof -
  have a: "\<forall>i<length df.
      Category (clean_supply_chain_data py_str df ! i) = capitalize (strip (Category (df ! i)))"
    by (simp add: clean_nth Category_nth normalize_category_def)
  have b: "capitalize (c # cs) = upper_char c # map lower_char cs"
    by (simp add: lower_def)
  have e1: "normalize_category ''ELECTRONICS'' = ''Electronics''" by code_simp
  have e2: "normalize_category ''electronics '' = ''Electronics''" by code_simp
  have e3: "normalize_category ''Electronics'' = ''Electronics''" by code_simp
  have e4: "normalize_category ''home '' = ''Home''" by code_simp
  have m: "\<forall>i<length df. \<forall>j<length df.
      normalize_category (Category (df ! i)) = normalize_category (Category (df ! j)) \<longrightarrow>
      Category (clean_supply_chain_data py_str df ! i) =
      Category (clean_supply_chain_data py_str df ! j)"
    by (simp add: clean_nth Category_nth)
  have s: "set (map Category (clean_supply_chain_data py_str df)) =
      normalize_category ` Category ` set df"
    by (simp add: map_Category_clean Category_col_def image_image)
  from a b e1 e2 e3 e4 m s show ?thesis by blast
qed

theorem C8_category_normalization_witness:
  "set (map Category (clean_supply_chain_data example_str [row_pending, row_plain, row_tidy])) =
   {''Electronics''}"
proof -
  note h = C8_category_normalization [of "[row_pending, row_plain, row_tidy]" example_str
      "CHR ''a''" "[]"]
  from h have
    "set (map Category (clean_supply_chain_data example_str [row_pending, row_plain, row_tidy])) =
     normalize_category ` Category ` set [row_pending, row_plain, row_tidy]"
    by blast
  also from h have "\<dots> = {''Electronics''}"
    by (simp add: row_pending_def row_plain_def row_tidy_def)
  finally show ?thesis .
qed

section \<open>The cost parser: range and examples\<close>

lemmas cost_eval = clean_cost_str_def strip_def isspace_def isdigit_def re_sub_nondigit_def
  py_float_def digits_val_def digit_val_def ovf_def DBL_OVERFLOW_def

lemma DBL_OVERFLOW_pos: "0 < DBL_OVERFLOW"
  by (simp add: DBL_OVERFLOW_def)

lemma ovf_nonneg:
  "0 \<le> q \<Longrightarrow> ovf q = PInf \<or> (\<exists>r. ovf q = Fin r \<and> 0 \<le> r \<and> r < DBL_OVERFLOW)"
  using DBL_OVERFLOW_pos by (auto simp: ovf_def)

lemma py_float_range:
  assumes "py_float s = Inr x"
  shows "x = PInf \<or> (\<exists>q. x = Fin q \<and> 0 \<le> q \<and> q < DBL_OVERFLOW)"
proof -
  from assms consider (whole) n where "x = ovf (of_nat n)"
    | (frac) n k where "x = ovf (of_nat n / 10 ^ k)"
    by (auto simp: py_float_def Let_def split: list.splits if_splits)
  then show ?thesis
  proof cases
    case whole
    with ovf_nonneg [of "of_nat n"] show ?thesis by simp
  next
    case frac
    with ovf_nonneg [of "of_nat n / 10 ^ k"] show ?thesis by simp
  qed
qed

lemma clean_cost_str_range:
  "clean_cost_str s = NaN \<or> clean_cost_str s = PInf \<or>
   (\<exists>q. clean_cost_str s = Fin q \<and> 0 \<le> q \<and> q < DBL_OVERFLOW)"
proof (cases "py_float (re_sub_nondigit (strip s))")
  case (Inl e)
  then show ?thesis by (cases e) (simp add: clean_cost_str_def Let_def)
next
  case (Inr x)
  with py_float_range [OF Inr] show ?thesis by (auto simp: clean_cost_str_def Let_def)
qed

lemma clean_cost_range:
  "clean_cost py_str v = NaN \<or> clean_cost py_str v = PInf \<or>
   (\<exists>q. clean_cost py_str v = Fin q \<and> 0 \<le> q \<and> q < DBL_OVERFLOW)"
  using clean_cost_str_range by (cases v) auto




text \<open>
  Claim C3. The cost parser maps a missing value to a missing value and text without a
  digit to a missing value; for any other text it keeps the digits and points of the
  trimmed text and converts what is left to a float, a failed conversion giving a
  missing value; a number is parsed from its text. So "$123.45" gives 123.45,
  "USD 80.00" gives 80, "1,200.00" gives 1200, "Quote Pending" and None give a missing
  value, and the number 42.5, whose text is "42.5", gives 42.5.
\<close>

theorem C3_cost_parser:
  "clean_cost py_str RNull = NaN \<and>
   (\<not> list_ex isdigit (strip s) \<longrightarrow> clean_cost py_str (RStr s) = NaN) \<and>
   (list_ex isdigit (strip s) \<longrightarrow>
      clean_cost py_str (RStr s) =
        (case py_float (filter (\<lambda>c. isdigit c \<or> c = CHR ''.'') (strip s)) of
           Inl e \<Rightarrow> NaN
         | Inr x \<Rightarrow> x)) \<and>
   (v \<noteq> NaN \<longrightarrow> clean_cost py_str (RNum v) = clean_cost py_str (RStr (py_str v))) \<and>
   clean_cost py_str (RStr ''$123.45'') = Fin 123.45 \<and>
   clean_cost py_str (RStr ''USD 80.00'') = Fin 80 \<and>
   clean_cost py_str (RStr ''1,200.00'') = Fin 1200 \<and>
   clean_cost py_str (RStr ''Quote Pending'') = NaN \<and>
   (py_str (Fin 42.5) = ''42.5'' \<longrightarrow> clean_cost py_str (RNum (Fin 42.5)) = Fin 42.5)"
proof -
  have n: "clean_cost py_str RNull = NaN" by simp
  have d0: "\<not> list_ex isdigit (strip s) \<longrightarrow> clean_cost py_str (RStr s) = NaN"
    by (simp add: clean_cost_str_def)
  have d1: "list_ex isdigit (strip s) \<longrightarrow>
      clean_cost py_str (RStr s) =
        (case py_float (filter (\<lambda>c. isdigit c \<or> c = CHR ''.'') (strip s)) of
           Inl e \<Rightarrow> NaN
         | Inr x \<Rightarrow> x)"
    by (simp add: clean_cost_str_def re_sub_nondigit_def split: sum.splits error.splits)
  have num: "v \<noteq> NaN \<longrightarrow> clean_cost py_str (RNum v) = clean_cost py_str (RStr (py_str v))"
    by (simp add: isna_def)
  have e1: "clean_cost py_str (RStr ''$123.45'') = Fin 123.45" by (simp add: cost_eval)
  have e2: "clean_cost py_str (RStr ''USD 80.00'') = Fin 80" by (simp add: cost_eval)
  have e3: "clean_cost py_str (RStr ''1,200.00'') = Fin 1200" by (simp add: cost_eval)
  have e4: "clean_cost py_str (RStr ''Quote Pending'') = NaN" by (simp add: cost_eval)
  have e5: "py_str (Fin 42.5) = ''42.5'' \<longrightarrow> clean_cost py_str (RNum (Fin 42.5)) = Fin 42.5"
    by (simp add: cost_eval isna_def)
  from n d0 d1 num e1 e2 e3 e4 e5 show ?thesis by blast
qed

theorem C3_cost_parser_witness:
  "clean_cost example_str (RNum (Fin 42.5)) = Fin 42.5 \<and>
   clean_cost example_str (RStr ''N/A'') = NaN"
proof -
  note h = C3_cost_parser [of example_str "''N/A''" "Fin 42.5"]
  have s: "example_str (Fin 42.5) = ''42.5''" by (simp add: example_str_def)
  have d: "\<not> list_ex isdigit (strip ''N/A'')" by (simp add: strip_def isspace_def isdigit_def)
  from h s have "clean_cost example_str (RNum (Fin 42.5)) = Fin 42.5" by blast
  moreover from h d have "clean_cost example_str (RStr ''N/A'') = NaN" by blast
  ultimately show ?thesis by simp
qed




section \<open>The stock parser: what parses\<close>

lemmas stock_eval = xstrtod_def take_sign_def take_fraction_def take_exponent_def scale10_def
  isspace_ascii_def isdigit_def digits_val_def digit_val_def DBL_OVERFLOW_def inf_word_def
  lower_def lower_char_def

lemma set_split_While: "set s = set (takeWhile P s) \<union> set (dropWhile P s)"
  by (metis set_append takeWhile_dropWhile_id)

lemma numeric_takeWhile_digit: "c \<in> set (takeWhile isdigit s) \<Longrightarrow> numeric_char c"
  by (auto simp: numeric_char_def dest: set_takeWhileD)

lemma numeric_takeWhile_space: "c \<in> set (takeWhile isspace_ascii s) \<Longrightarrow> numeric_char c"
  by (auto simp: numeric_char_def dest: set_takeWhileD)

lemma numeric_split_digit:
  "(\<forall>c\<in>set (dropWhile isdigit s). numeric_char c) \<Longrightarrow> (\<forall>c\<in>set s. numeric_char c)"
  using set_split_While [of s isdigit] numeric_takeWhile_digit by auto

lemma numeric_split_space:
  "(\<forall>c\<in>set (dropWhile isspace_ascii s). numeric_char c) \<Longrightarrow> (\<forall>c\<in>set s. numeric_char c)"
  using set_split_While [of s isspace_ascii] numeric_takeWhile_space by auto

lemma numeric_all_space:
  "dropWhile isspace_ascii s = [] \<Longrightarrow> (\<forall>c\<in>set s. numeric_char c)"
  by (auto simp: numeric_char_def dropWhile_eq_Nil_conv)

lemma take_sign_numeric:
  "take_sign s = (neg, r) \<Longrightarrow> (\<forall>c\<in>set r. numeric_char c) \<Longrightarrow> (\<forall>c\<in>set s. numeric_char c)"
  by (auto simp: take_sign_def numeric_char_def split: list.splits if_splits)

lemma take_fraction_numeric:
  assumes "take_fraction r = (fp, s2)" and "\<forall>c\<in>set s2. numeric_char c"
  shows "\<forall>c\<in>set r. numeric_char c"
proof (cases r)
  case Nil
  then show ?thesis by simp
next
  case (Cons c cs)
  show ?thesis
  proof (cases "c = CHR ''.''")
    case True
    with Cons assms have "s2 = dropWhile isdigit cs" by (simp add: take_fraction_def)
    with assms(2) have "\<forall>c\<in>set cs. numeric_char c" using numeric_split_digit by blast
    with Cons True show ?thesis by (simp add: numeric_char_def)
  next
    case False
    with Cons assms show ?thesis by (simp add: take_fraction_def)
  qed
qed

lemma take_exponent_numeric:
  assumes "take_exponent r = Some (e, s3)" and "\<forall>c\<in>set s3. numeric_char c"
  shows "\<forall>c\<in>set r. numeric_char c"
proof (cases r)
  case Nil
  then show ?thesis by simp
next
  case (Cons c cs)
  show ?thesis
  proof (cases "c = CHR ''e'' \<or> c = CHR ''E''")
    case True
    obtain neg ds where ts: "take_sign cs = (neg, ds)" by (cases "take_sign cs")
    with Cons True assms(1) have "s3 = dropWhile isdigit ds"
      by (auto simp: take_exponent_def Let_def split: if_splits)
    with assms(2) have "\<forall>c\<in>set ds. numeric_char c" using numeric_split_digit by blast
    with ts have "\<forall>c\<in>set cs. numeric_char c" by (rule take_sign_numeric)
    with Cons True show ?thesis by (auto simp: numeric_char_def)
  next
    case False
    with Cons assms show ?thesis by (simp add: take_exponent_def)
  qed
qed

lemma xstrtod_numeric:
  assumes "xstrtod s = Some v"
  shows "\<forall>c\<in>set s. numeric_char c"
proof -
  obtain neg s1 where ts: "take_sign (dropWhile isspace_ascii s) = (neg, s1)"
    by (cases "take_sign (dropWhile isspace_ascii s)")
  obtain fp s2 where tf: "take_fraction (dropWhile isdigit s1) = (fp, s2)"
    by (cases "take_fraction (dropWhile isdigit s1)")
  from assms ts tf obtain e s3 where te: "take_exponent s2 = Some (e, s3)"
    and sp: "dropWhile isspace_ascii s3 = []"
    by (auto simp: xstrtod_def Let_def split: if_splits option.splits)
  from sp have "\<forall>c\<in>set s3. numeric_char c" by (rule numeric_all_space)
  with te have "\<forall>c\<in>set s2. numeric_char c" by (rule take_exponent_numeric)
  with tf have "\<forall>c\<in>set (dropWhile isdigit s1). numeric_char c" by (rule take_fraction_numeric)
  then have "\<forall>c\<in>set s1. numeric_char c" by (rule numeric_split_digit)
  with ts have "\<forall>c\<in>set (dropWhile isspace_ascii s). numeric_char c" by (rule take_sign_numeric)
  then show ?thesis by (rule numeric_split_space)
qed

lemma to_numeric_text:
  "to_numeric (RStr s) \<noteq> NaN \<Longrightarrow> (\<forall>c\<in>set s. numeric_char c) \<or> inf_word s \<noteq> None"
  using xstrtod_numeric [of s] by (auto split: if_splits option.splits)

lemma Current_Stock_nth:
  "i < length df \<Longrightarrow>
   Current_Stock_col df ! i =
     (let v = to_numeric (Current_Stock_Raw (df ! i)) in
      if v = NaN then Fin 0 else if flt v (Fin 0) then Fin 0 else v)"
  by (simp add: Current_Stock_col_def Current_Stock_nonneg_def Current_Stock_numeric_def
      fillna_def isna_def Let_def)

text \<open>
  Claim C2, as amended. The stock parser converts the whole text of a cell and discards
  nothing: text is a number only if every character of it can occur in a number (a
  digit, a sign, a point, an exponent mark or white space) or if it is an infinity
  word. A value with a unit suffix does not parse: "150 pcs" is coerced to a missing
  value, while "150" gives 150 and "-30" gives -30; a missing cell stays missing and a
  number is kept. In the output, Current_Stock is 0 where the coerced value is missing
  or below zero, and the coerced value elsewhere.
\<close>

theorem C2_stock_parser:
  "(to_numeric (RStr s) \<noteq> NaN \<longrightarrow> (\<forall>c\<in>set s. numeric_char c) \<or> inf_word s \<noteq> None) \<and>
   to_numeric (RStr ''150 pcs'') = NaN \<and>
   to_numeric (RStr ''150'') = Fin 150 \<and>
   to_numeric (RStr ''-30'') = Fin (- 30) \<and>
   to_numeric RNull = NaN \<and>
   to_numeric (RNum v) = v \<and>
   (\<forall>i<length df.
      Current_Stock (clean_supply_chain_data py_str df ! i) =
        (let x = to_numeric (Current_Stock_Raw (df ! i)) in
         if x = NaN then Fin 0 else if flt x (Fin 0) then Fin 0 else x))"
proof -
  have g: "to_numeric (RStr s) \<noteq> NaN \<longrightarrow> (\<forall>c\<in>set s. numeric_char c) \<or> inf_word s \<noteq> None"
    using to_numeric_text [of s] by blast
  have e1: "to_numeric (RStr ''150 pcs'') = NaN" by (simp add: stock_eval)
  have e2: "to_numeric (RStr ''150'') = Fin 150" by (simp add: stock_eval)
  have e3: "to_numeric (RStr ''-30'') = Fin (- 30)" by (simp add: stock_eval)
  have e4: "to_numeric RNull = NaN" by simp
  have e5: "to_numeric (RNum v) = v" by simp
  have p: "\<forall>i<length df.
      Current_Stock (clean_supply_chain_data py_str df ! i) =
        (let x = to_numeric (Current_Stock_Raw (df ! i)) in
         if x = NaN then Fin 0 else if flt x (Fin 0) then Fin 0 else x)"
    by (simp add: clean_nth Current_Stock_nth)
  from g e1 e2 e3 e4 e5 p show ?thesis by blast
qed

theorem C2_stock_parser_witness:
  "to_numeric (RStr '' 1.5e3 '') = Fin 1500 \<and>
   list_all numeric_char '' 1.5e3 '' \<and>
   Current_Stock (clean_supply_chain_data example_str [row_pending, row_tidy] ! 1) = Fin 0"
proof -
  note h = C2_stock_parser [of "'' 1.5e3 ''" "Fin (- 30)" "[row_pending, row_tidy]" example_str]
  have v: "to_numeric (RStr '' 1.5e3 '') = Fin 1500" by (simp add: stock_eval)
  have w: "inf_word '' 1.5e3 '' = None" by (simp add: inf_word_def lower_def lower_char_def)
  from h v w have "\<forall>c\<in>set '' 1.5e3 ''. numeric_char c" by simp
  then have a: "list_all numeric_char '' 1.5e3 ''" by (simp add: list_all_iff)
  have r: "to_numeric (Current_Stock_Raw ([row_pending, row_tidy] ! 1)) = Fin (- 30)"
    by (simp add: row_tidy_def)
  from h have "Current_Stock (clean_supply_chain_data example_str [row_pending, row_tidy] ! 1) =
      (let x = to_numeric (Current_Stock_Raw ([row_pending, row_tidy] ! 1)) in
       if x = NaN then Fin 0 else if flt x (Fin 0) then Fin 0 else x)"
    by simp
  with r have "Current_Stock (clean_supply_chain_data example_str [row_pending, row_tidy] ! 1) = Fin 0"
    by simp
  with v a show ?thesis by simp
qed

text \<open>
  The claim as it was stated fails: the coerced value of "150 pcs" is missing, not 150,
  and the Current_Stock written for such a row is 0.
\<close>

theorem C2_counterexample:
  "to_numeric (RStr ''150 pcs'') = NaN \<and>
   to_numeric (RStr ''150 pcs'') \<noteq> Fin 150 \<and>
   Current_Stock (clean_supply_chain_data example_str [row_pending] ! 0) = Fin 0"
  by (simp add: clean_nth Current_Stock_nth row_pending_def stock_eval)

section \<open>The median of costs\<close>

lemma fge_zero_iff: "fge v (Fin 0) \<longleftrightarrow> v = PInf \<or> (\<exists>q. v = Fin q \<and> 0 \<le> q)"
  by (cases v) (auto simp: fge_def)

lemma fge_one_iff: "fge v (Fin 1) \<longleftrightarrow> v = PInf \<or> (\<exists>q. v = Fin q \<and> 1 \<le> q)"
  by (cases v) (auto simp: fge_def)

lemma fge_not_nan: "fge v w \<Longrightarrow> v \<noteq> NaN"
  by (cases v) (auto simp: fge_def)

lemma set_insort_f [simp]: "set (insort_f x xs) = insert x (set xs)"
  by (induction xs) auto

lemma set_sort_f [simp]: "set (sort_f xs) = set xs"
  by (induction xs) auto

lemma length_insort_f [simp]: "length (insort_f x xs) = Suc (length xs)"
  by (induction xs) auto

lemma length_sort_f [simp]: "length (sort_f xs) = length xs"
  by (induction xs) auto

lemma fge_Fin_Fin [simp]: "fge (Fin a) (Fin b) = (b \<le> a)"
  by (auto simp: fge_def)

lemma fge_PInf_Fin [simp]: "fge PInf (Fin b)"
  by (simp add: fge_def)

lemma half_sum_nonneg:
  assumes "fge a (Fin 0)" and "fge b (Fin 0)"
  shows "fge (fhalf (fadd a b)) (Fin 0)"
proof -
  from assms consider (inf) "a = PInf \<or> b = PInf"
    | (fin) p q where "a = Fin p" "b = Fin q" "0 \<le> p" "0 \<le> q"
    by (auto simp: fge_zero_iff)
  then show ?thesis
  proof cases
    case inf
    with assms show ?thesis by (cases a; cases b) (auto simp: fge_zero_iff)
  next
    case fin
    from fin have "0 \<le> p + q" by simp
    from ovf_nonneg [OF this] consider "ovf (p + q) = PInf"
      | r where "ovf (p + q) = Fin r" "0 \<le> r" by blast
    then show ?thesis
    proof cases
      case 1
      with fin show ?thesis by simp
    next
      case 2
      with fin show ?thesis by simp
    qed
  qed
qed

lemma median_all_nan: "\<forall>v\<in>set vs. v = NaN \<Longrightarrow> median vs = NaN"
proof -
  assume "\<forall>v\<in>set vs. v = NaN"
  then have "filter (\<lambda>v. \<not> isna v) vs = []" by (simp add: isna_def filter_empty_conv)
  then show ?thesis by (simp add: median_def)
qed

lemma median_nonneg:
  assumes all: "\<forall>v\<in>set vs. v = NaN \<or> fge v (Fin 0)" and ex: "\<exists>v\<in>set vs. v \<noteq> NaN"
  shows "fge (median vs) (Fin 0)"
proof -
  define xs where "xs = sort_f (filter (\<lambda>v. \<not> isna v) vs)"
  define n where "n = length xs"
  have mem: "\<forall>v\<in>set xs. fge v (Fin 0)" using all by (auto simp: xs_def isna_def)
  from ex have "xs \<noteq> []" by (auto simp: xs_def isna_def filter_empty_conv simp flip: set_empty)
  then have pos: "0 < n" by (simp add: n_def)
  show ?thesis
  proof (cases "odd n")
    case True
    from pos have "n div 2 < n" by simp
    then have "xs ! (n div 2) \<in> set xs" by (simp add: n_def)
    with mem True pos \<open>xs \<noteq> []\<close> show ?thesis
      by (simp add: median_def xs_def [symmetric] n_def [symmetric] Let_def)
  next
    case False
    from pos have "n div 2 < n" and "n div 2 - 1 < n" by simp_all
    then have "xs ! (n div 2) \<in> set xs" and "xs ! (n div 2 - 1) \<in> set xs" by (simp_all add: n_def)
    with mem have "fge (xs ! (n div 2 - 1)) (Fin 0)" and "fge (xs ! (n div 2)) (Fin 0)" by blast+
    then have "fge (fhalf (fadd (xs ! (n div 2 - 1)) (xs ! (n div 2)))) (Fin 0)" by (rule half_sum_nonneg)
    with False pos \<open>xs \<noteq> []\<close> show ?thesis
      by (simp add: median_def xs_def [symmetric] n_def [symmetric] Let_def)
  qed
qed

lemma median_filter: "median (filter (\<lambda>v. v \<noteq> NaN) vs) = median vs"
  by (simp add: median_def isna_def)

lemma fill_by_category_nth:
  assumes "i < length cats" and "length vals = length cats"
  shows "fill_by_category cats vals ! i = fillna (median (group_values cats vals (cats ! i))) (vals ! i)"
  using assms by (simp add: fill_by_category_def)

lemma group_values_subset: "set (group_values cats vals c) \<subseteq> set vals"
  by (auto simp: group_values_def dest: set_zip_rightD)

lemma group_values_member:
  assumes "i < length cats" and "length vals = length cats"
  shows "vals ! i \<in> set (group_values cats vals (cats ! i))"
proof -
  from assms have "(cats ! i, vals ! i) \<in> set (zip cats vals)"
    by (auto simp: set_zip)
  then show ?thesis by (force simp: group_values_def)
qed

lemma median_ok:
  assumes "\<forall>v\<in>set vs. v = NaN \<or> fge v (Fin 0)"
  shows "median vs = NaN \<or> fge (median vs) (Fin 0)"
proof (cases "\<exists>v\<in>set vs. v \<noteq> NaN")
  case True
  with assms show ?thesis by (simp add: median_nonneg)
next
  case False
  then show ?thesis by (simp add: median_all_nan)
qed

lemma fillna_simps [simp]: "fillna m NaN = m" "v \<noteq> NaN \<Longrightarrow> fillna m v = v"
  by (simp_all add: fillna_def isna_def)

lemma parsed_nth:
  "i < length df \<Longrightarrow> Unit_Cost_parsed py_str df ! i = clean_cost py_str (Unit_Cost_Raw (df ! i))"
  by (simp add: Unit_Cost_parsed_def)

lemma parsed_ok: "\<forall>v\<in>set (Unit_Cost_parsed py_str df). v = NaN \<or> fge v (Fin 0)"
proof
  fix v assume "v \<in> set (Unit_Cost_parsed py_str df)"
  then have "\<exists>r::raw_row. v = clean_cost py_str (Unit_Cost_Raw r)"
    unfolding Unit_Cost_parsed_def by auto
  then obtain r :: raw_row where "v = clean_cost py_str (Unit_Cost_Raw r)" by blast
  with clean_cost_range [of py_str "Unit_Cost_Raw r"] show "v = NaN \<or> fge v (Fin 0)"
    by (auto simp: fge_zero_iff)
qed

lemma group_ok:
  "\<forall>v\<in>set (group_values (Category_col df) (Unit_Cost_parsed py_str df) c). v = NaN \<or> fge v (Fin 0)"
  using parsed_ok [of py_str df] group_values_subset by blast

lemma by_category_nth:
  "i < length df \<Longrightarrow>
   Unit_Cost_by_category py_str df ! i =
     fillna (median (group_values (Category_col df) (Unit_Cost_parsed py_str df) (Category_col df ! i)))
       (Unit_Cost_parsed py_str df ! i)"
  by (simp add: Unit_Cost_by_category_def fill_by_category_nth)

lemma by_category_ok: "\<forall>v\<in>set (Unit_Cost_by_category py_str df). v = NaN \<or> fge v (Fin 0)"
proof
  fix v assume "v \<in> set (Unit_Cost_by_category py_str df)"
  then obtain i where i: "i < length df" and v: "v = Unit_Cost_by_category py_str df ! i"
    by (auto simp: in_set_conv_nth)
  show "v = NaN \<or> fge v (Fin 0)"
  proof (cases "Unit_Cost_parsed py_str df ! i = NaN")
    case True
    with i v median_ok [OF group_ok, of df py_str "Category_col df ! i"] show ?thesis
      by (simp add: by_category_nth)
  next
    case False
    from i have "Unit_Cost_parsed py_str df ! i \<in> set (Unit_Cost_parsed py_str df)" by simp
    with parsed_ok [of py_str df] False i v show ?thesis by (auto simp: by_category_nth)
  qed
qed

lemma Unit_Cost_nth:
  "i < length df \<Longrightarrow>
   Unit_Cost_col py_str df ! i =
     fillna (median (Unit_Cost_by_category py_str df)) (Unit_Cost_by_category py_str df ! i)"
  by (simp add: Unit_Cost_col_def)

lemma Unit_Cost_ok:
  assumes "i < length df"
  shows "Unit_Cost_col py_str df ! i = NaN \<or> fge (Unit_Cost_col py_str df ! i) (Fin 0)"
proof (cases "Unit_Cost_by_category py_str df ! i = NaN")
  case True
  with assms median_ok [OF by_category_ok, of py_str df] show ?thesis by (simp add: Unit_Cost_nth)
next
  case False
  from assms have "Unit_Cost_by_category py_str df ! i \<in> set (Unit_Cost_by_category py_str df)" by simp
  with by_category_ok [of py_str df] False assms show ?thesis by (auto simp: Unit_Cost_nth)
qed

lemma Unit_Cost_kept:
  assumes "i < length df" and "Unit_Cost_parsed py_str df ! i \<noteq> NaN"
  shows "Unit_Cost_col py_str df ! i = Unit_Cost_parsed py_str df ! i"
  using assms by (simp add: Unit_Cost_nth by_category_nth)

lemma Unit_Cost_category_median:
  assumes i: "i < length df" and nan: "Unit_Cost_parsed py_str df ! i = NaN"
    and ex: "\<exists>v\<in>set (group_values (Category_col df) (Unit_Cost_parsed py_str df) (Category_col df ! i)). v \<noteq> NaN"
  shows "Unit_Cost_col py_str df ! i =
     median (group_values (Category_col df) (Unit_Cost_parsed py_str df) (Category_col df ! i))"
proof -
  have "fge (median (group_values (Category_col df) (Unit_Cost_parsed py_str df) (Category_col df ! i))) (Fin 0)"
    using group_ok ex by (rule median_nonneg)
  then have "median (group_values (Category_col df) (Unit_Cost_parsed py_str df) (Category_col df ! i)) \<noteq> NaN"
    by (rule fge_not_nan)
  with i nan show ?thesis by (simp add: Unit_Cost_nth by_category_nth)
qed

lemma Unit_Cost_global_median:
  assumes i: "i < length df" and nan: "Unit_Cost_parsed py_str df ! i = NaN"
    and all: "\<forall>v\<in>set (group_values (Category_col df) (Unit_Cost_parsed py_str df) (Category_col df ! i)). v = NaN"
  shows "Unit_Cost_col py_str df ! i = median (Unit_Cost_by_category py_str df)"
  using i nan median_all_nan [OF all] by (simp add: Unit_Cost_nth by_category_nth)

lemma Unit_Cost_null_iff:
  assumes i: "i < length df"
  shows "Unit_Cost_col py_str df ! i = NaN \<longleftrightarrow> (\<forall>j<length df. Unit_Cost_parsed py_str df ! j = NaN)"
proof
  assume n: "Unit_Cost_col py_str df ! i = NaN"
  show "\<forall>j<length df. Unit_Cost_parsed py_str df ! j = NaN"
  proof (rule ccontr)
    assume "\<not> (\<forall>j<length df. Unit_Cost_parsed py_str df ! j = NaN)"
    then obtain j where j: "j < length df" and p: "Unit_Cost_parsed py_str df ! j \<noteq> NaN" by blast
    from j p have "Unit_Cost_by_category py_str df ! j \<noteq> NaN" by (simp add: by_category_nth)
    with j have "\<exists>v\<in>set (Unit_Cost_by_category py_str df). v \<noteq> NaN"
      by (metis length_cols(8) nth_mem)
    with by_category_ok have "fge (median (Unit_Cost_by_category py_str df)) (Fin 0)"
      by (rule median_nonneg)
    then have "median (Unit_Cost_by_category py_str df) \<noteq> NaN" by (rule fge_not_nan)
    with i have "Unit_Cost_col py_str df ! i \<noteq> NaN" by (simp add: Unit_Cost_nth fillna_def isna_def)
    with n show False by simp
  qed
next
  assume a: "\<forall>j<length df. Unit_Cost_parsed py_str df ! j = NaN"
  then have p: "\<forall>v\<in>set (Unit_Cost_parsed py_str df). v = NaN" by (auto simp: in_set_conv_nth)
  have g: "\<forall>c. \<forall>v\<in>set (group_values (Category_col df) (Unit_Cost_parsed py_str df) c). v = NaN"
    using p group_values_subset by blast
  have b: "\<forall>j<length df. Unit_Cost_by_category py_str df ! j = NaN"
    using a g by (simp add: by_category_nth median_all_nan)
  then have "\<forall>v\<in>set (Unit_Cost_by_category py_str df). v = NaN" by (auto simp: in_set_conv_nth)
  then have "median (Unit_Cost_by_category py_str df) = NaN" by (rule median_all_nan)
  with i b show "Unit_Cost_col py_str df ! i = NaN" by (simp add: Unit_Cost_nth)
qed

text \<open>The list whose middle the median takes is sorted.\<close>

lemma flt_asym: "flt a b \<Longrightarrow> \<not> flt b a"
  by (cases a; cases b) auto

lemma flt_between: "b \<noteq> NaN \<Longrightarrow> flt a c \<Longrightarrow> flt a b \<or> flt b c"
  by (cases a; cases b; cases c) auto

lemma sorted_insort_f:
  assumes "x \<noteq> NaN" and "NaN \<notin> set xs" and "sorted_wrt (\<lambda>a b. \<not> flt b a) xs"
  shows "sorted_wrt (\<lambda>a b. \<not> flt b a) (insort_f x xs)"
  using assms
proof (induction xs)
  case Nil
  then show ?case by simp
next
  case (Cons y ys)
  show ?case
  proof (cases "flt y x")
    case True
    with Cons show ?thesis by (auto dest: flt_asym)
  next
    case False
    have "\<not> flt z x" if "z \<in> set ys" for z
    proof
      assume "flt z x"
      with flt_between [of y z x] Cons.prems have "flt z y \<or> flt y x" by auto
      with False Cons.prems that show False by auto
    qed
    with False Cons.prems show ?thesis by auto
  qed
qed

lemma sorted_sort_f:
  "NaN \<notin> set xs \<Longrightarrow> sorted_wrt (\<lambda>a b. \<not> flt b a) (sort_f xs)"
proof (induction xs)
  case Nil
  then show ?case by simp
next
  case (Cons x xs)
  then have "x \<noteq> NaN" and "NaN \<notin> set (sort_f xs)"
    and "sorted_wrt (\<lambda>a b. \<not> flt b a) (sort_f xs)" by auto
  then show ?case by (simp add: sorted_insort_f)
qed

lemma median_takes_sorted:
  "sorted_wrt (\<lambda>a b. \<not> flt b a) (sort_f (filter (\<lambda>v. \<not> isna v) vs))"
  by (rule sorted_sort_f) (simp add: isna_def)

text \<open>A median does not depend on how the values are sorted.\<close>

lemma flt_irrefl [simp]: "\<not> flt a a"
  by (cases a) auto

lemma flt_antisym: "a \<noteq> NaN \<Longrightarrow> b \<noteq> NaN \<Longrightarrow> \<not> flt a b \<Longrightarrow> \<not> flt b a \<Longrightarrow> a = b"
  by (cases a; cases b) auto

lemma mset_insort_f [simp]: "mset (insort_f x xs) = add_mset x (mset xs)"
  by (induction xs) auto

lemma mset_sort_f [simp]: "mset (sort_f xs) = mset xs"
  by (induction xs) auto

lemma ascending_unique:
  assumes "ascending xs" and "ascending ys" and "mset xs = mset ys" and "NaN \<notin> set xs"
  shows "xs = ys"
  using assms
proof (induction xs arbitrary: ys)
  case Nil
  then show ?case by simp
next
  case (Cons x xs)
  from Cons.prems(3) have "ys \<noteq> []" by auto
  then obtain y ys' where ys: "ys = y # ys'" by (cases ys) auto
  from Cons.prems(3) have sets: "set (x # xs) = set ys" by (metis mset_eq_setD)
  with Cons.prems(4) have ny: "y \<noteq> NaN" and nx: "x \<noteq> NaN" by (auto simp: ys)
  from sets ys have "x = y \<or> x \<in> set ys'" by auto
  with Cons.prems(2) ys have 1: "\<not> flt x y" by (auto simp: ascending_def)
  from sets ys have "y = x \<or> y \<in> set xs" by auto
  with Cons.prems(1) have 2: "\<not> flt y x" by (auto simp: ascending_def)
  from nx ny 1 2 have xy: "x = y" by (rule flt_antisym)
  with Cons.prems(3) ys have m: "mset xs = mset ys'" by simp
  from Cons.prems(1) have a1: "ascending xs" by (simp add: ascending_def)
  from Cons.prems(2) ys have a2: "ascending ys'" by (simp add: ascending_def)
  from Cons.prems(4) have "NaN \<notin> set xs" by simp
  from Cons.IH [OF a1 a2 m this] xy ys show ?case by simp
qed

lemma median_middle:
  assumes "mset ys = mset (present vs)" and "ascending ys"
  shows "median vs = middle_value ys"
proof -
  have n: "NaN \<notin> set (sort_f (present vs))" by (simp add: present_def)
  have a: "ascending (sort_f (present vs))"
    unfolding ascending_def by (rule sorted_sort_f) (simp add: present_def)
  from assms(1) have "mset (sort_f (present vs)) = mset ys" by simp
  from ascending_unique [OF a assms(2) this n] have "sort_f (present vs) = ys" .
  then show ?thesis by (simp add: median_def middle_value_def present_def isna_def Let_def)
qed

section \<open>Imputation of missing costs\<close>

lemma group_values_set:
  assumes "length vals = length cats"
  shows "set (group_values cats vals c) = {vals ! j | j. j < length cats \<and> cats ! j = c}"
proof (intro set_eqI iffI)
  fix v assume "v \<in> set (group_values cats vals c)"
  with assms show "v \<in> {vals ! j | j. j < length cats \<and> cats ! j = c}"
    by (auto simp: group_values_def set_zip)
next
  fix v assume "v \<in> {vals ! j | j. j < length cats \<and> cats ! j = c}"
  then obtain j where j: "j < length cats" "cats ! j = c" "v = vals ! j" by blast
  with assms have "(c, v) \<in> set (zip cats vals)" by (auto simp: set_zip)
  then show "v \<in> set (group_values cats vals c)" by (force simp: group_values_def)
qed

lemma present_nonempty: "present vs \<noteq> [] \<longleftrightarrow> (\<exists>v\<in>set vs. v \<noteq> NaN)"
  by (auto simp: present_def filter_empty_conv)


text \<open>
  Claim C4, as amended. The imputation of missing costs has two tiers, in this order,
  and each fills with a median: the middle of the values that are present, put in
  ascending order. The first tier leaves in every cell its parsed cost or, where that is
  missing, the median of the parsed costs of the rows of its category; the second tier
  fills what is still missing with the median of the whole Unit_Cost column as the first
  tier left it. So a cell whose parsed cost is missing, in a category that has a parsed
  cost, becomes the median of the parsed costs of that category (costs 10, 20 and 30
  give 20); a cell in a category without any parsed cost becomes the median of the
  column after the first tier, all categories together, the cells that the first tier
  filled counted along with the parsed costs. A cost that was parsed is kept.
\<close>

theorem C4_median_imputation:
  "(\<forall>i<length df. \<forall>ys.
      mset ys = mset (present (group_values (Category_col df) (Unit_Cost_parsed py_str df)
                                 (Category_col df ! i))) \<and> ascending ys \<longrightarrow>
      Unit_Cost_by_category py_str df ! i =
        (if Unit_Cost_parsed py_str df ! i = NaN then middle_value ys
         else Unit_Cost_parsed py_str df ! i)) \<and>
   (\<forall>i<length df. \<forall>zs.
      mset zs = mset (present (Unit_Cost_by_category py_str df)) \<and> ascending zs \<longrightarrow>
      Unit_Cost (clean_supply_chain_data py_str df ! i) =
        (if Unit_Cost_by_category py_str df ! i = NaN then middle_value zs
         else Unit_Cost_by_category py_str df ! i)) \<and>
   (\<forall>i<length df. \<forall>ys.
      Unit_Cost_parsed py_str df ! i = NaN \<and>
      present (group_values (Category_col df) (Unit_Cost_parsed py_str df) (Category_col df ! i)) \<noteq> [] \<and>
      mset ys = mset (present (group_values (Category_col df) (Unit_Cost_parsed py_str df)
                                 (Category_col df ! i))) \<and> ascending ys \<longrightarrow>
      Unit_Cost (clean_supply_chain_data py_str df ! i) = middle_value ys) \<and>
   (\<forall>i<length df. \<forall>zs.
      Unit_Cost_parsed py_str df ! i = NaN \<and>
      present (group_values (Category_col df) (Unit_Cost_parsed py_str df) (Category_col df ! i)) = [] \<and>
      mset zs = mset (present (Unit_Cost_by_category py_str df)) \<and> ascending zs \<longrightarrow>
      Unit_Cost (clean_supply_chain_data py_str df ! i) = middle_value zs) \<and>
   (\<forall>i<length df. Unit_Cost_parsed py_str df ! i \<noteq> NaN \<longrightarrow>
      Unit_Cost (clean_supply_chain_data py_str df ! i) = Unit_Cost_parsed py_str df ! i) \<and>
   set (group_values (Category_col df) (Unit_Cost_parsed py_str df) c) =
     {Unit_Cost_parsed py_str df ! j | j. j < length df \<and> Category_col df ! j = c} \<and>
   median [Fin 10, Fin 20, Fin 30] = Fin 20 \<and>
   median [Fin 10, Fin 20, Fin 30, NaN] = Fin 20"
proof -
  let ?g = "\<lambda>i. group_values (Category_col df) (Unit_Cost_parsed py_str df) (Category_col df ! i)"
  have t1: "\<forall>i<length df. \<forall>ys. mset ys = mset (present (?g i)) \<and> ascending ys \<longrightarrow>
      Unit_Cost_by_category py_str df ! i =
        (if Unit_Cost_parsed py_str df ! i = NaN then middle_value ys
         else Unit_Cost_parsed py_str df ! i)"
  proof (intro allI impI)
    fix i ys assume i: "i < length df" and "mset ys = mset (present (?g i)) \<and> ascending ys"
    then have "median (?g i) = middle_value ys" by (simp add: median_middle)
    with i show "Unit_Cost_by_category py_str df ! i =
        (if Unit_Cost_parsed py_str df ! i = NaN then middle_value ys
         else Unit_Cost_parsed py_str df ! i)"
      by (simp add: by_category_nth)
  qed
  have t2: "\<forall>i<length df. \<forall>zs.
      mset zs = mset (present (Unit_Cost_by_category py_str df)) \<and> ascending zs \<longrightarrow>
      Unit_Cost (clean_supply_chain_data py_str df ! i) =
        (if Unit_Cost_by_category py_str df ! i = NaN then middle_value zs
         else Unit_Cost_by_category py_str df ! i)"
  proof (intro allI impI)
    fix i zs assume i: "i < length df"
      and "mset zs = mset (present (Unit_Cost_by_category py_str df)) \<and> ascending zs"
    then have "median (Unit_Cost_by_category py_str df) = middle_value zs"
      by (simp add: median_middle)
    with i show "Unit_Cost (clean_supply_chain_data py_str df ! i) =
        (if Unit_Cost_by_category py_str df ! i = NaN then middle_value zs
         else Unit_Cost_by_category py_str df ! i)"
      by (simp add: clean_nth Unit_Cost_nth)
  qed
  have a: "\<forall>i<length df. \<forall>ys.
      Unit_Cost_parsed py_str df ! i = NaN \<and> present (?g i) \<noteq> [] \<and>
      mset ys = mset (present (?g i)) \<and> ascending ys \<longrightarrow>
      Unit_Cost (clean_supply_chain_data py_str df ! i) = middle_value ys"
  proof (intro allI impI)
    fix i ys assume i: "i < length df"
      and h: "Unit_Cost_parsed py_str df ! i = NaN \<and> present (?g i) \<noteq> [] \<and>
        mset ys = mset (present (?g i)) \<and> ascending ys"
    from h have n: "Unit_Cost_parsed py_str df ! i = NaN" by blast
    from h have ex: "\<exists>v\<in>set (?g i). v \<noteq> NaN" by (simp add: present_nonempty)
    from h have "median (?g i) = middle_value ys" by (simp add: median_middle)
    with Unit_Cost_category_median [OF i n ex] i
    show "Unit_Cost (clean_supply_chain_data py_str df ! i) = middle_value ys"
      by (simp add: clean_nth)
  qed
  have b: "\<forall>i<length df. \<forall>zs.
      Unit_Cost_parsed py_str df ! i = NaN \<and> present (?g i) = [] \<and>
      mset zs = mset (present (Unit_Cost_by_category py_str df)) \<and> ascending zs \<longrightarrow>
      Unit_Cost (clean_supply_chain_data py_str df ! i) = middle_value zs"
  proof (intro allI impI)
    fix i zs assume i: "i < length df"
      and h: "Unit_Cost_parsed py_str df ! i = NaN \<and> present (?g i) = [] \<and>
        mset zs = mset (present (Unit_Cost_by_category py_str df)) \<and> ascending zs"
    from h have n: "Unit_Cost_parsed py_str df ! i = NaN" by blast
    from h have "\<not> (\<exists>v\<in>set (?g i). v \<noteq> NaN)" by (simp add: present_nonempty [symmetric])
    then have al: "\<forall>v\<in>set (?g i). v = NaN" by blast
    from h have "median (Unit_Cost_by_category py_str df) = middle_value zs"
      by (simp add: median_middle)
    with Unit_Cost_global_median [OF i n al] i
    show "Unit_Cost (clean_supply_chain_data py_str df ! i) = middle_value zs"
      by (simp add: clean_nth)
  qed
  have k: "\<forall>i<length df. Unit_Cost_parsed py_str df ! i \<noteq> NaN \<longrightarrow>
      Unit_Cost (clean_supply_chain_data py_str df ! i) = Unit_Cost_parsed py_str df ! i"
    by (simp add: clean_nth Unit_Cost_kept)
  have c: "set (group_values (Category_col df) (Unit_Cost_parsed py_str df) c) =
     {Unit_Cost_parsed py_str df ! j | j. j < length df \<and> Category_col df ! j = c}"
    using group_values_set [of "Unit_Cost_parsed py_str df" "Category_col df" c] by simp
  have d: "median [Fin 10, Fin 20, Fin 30] = Fin 20" by (simp add: median_def isna_def)
  have e: "median [Fin 10, Fin 20, Fin 30, NaN] = Fin 20" by (simp add: median_def isna_def)
  show ?thesis by (intro conjI t1 t2 a b k c d e)
qed


lemmas category_eval = Category_col_def normalize_category_def strip_def isspace_def upper_char_def
  lower_def lower_char_def

lemma cost_table_cats:
  "Category_col cost_table = [''Tools'', ''Tools'', ''Tools'', ''Tools'', ''Home'', ''Home'', ''Food'']"
  by (simp add: cost_table_def cost_row_def category_eval)

lemma cost_table_parsed:
  "Unit_Cost_parsed example_str cost_table = [Fin 10, Fin 20, Fin 30, NaN, Fin 100, Fin 200, NaN]"
  by (simp add: cost_table_def cost_row_def Unit_Cost_parsed_def cost_eval)

lemma cost_table_by_category:
  "Unit_Cost_by_category example_str cost_table = [Fin 10, Fin 20, Fin 30, Fin 20, Fin 100, Fin 200, NaN]"
  by (simp add: Unit_Cost_by_category_def fill_by_category_def cost_table_cats cost_table_parsed
      group_values_def median_def isna_def ovf_def DBL_OVERFLOW_def)

lemma cost_table_group_3:
  "present (group_values (Category_col cost_table) (Unit_Cost_parsed example_str cost_table)
      (Category_col cost_table ! 3)) = [Fin 10, Fin 20, Fin 30]"
  by (simp add: cost_table_cats cost_table_parsed group_values_def present_def)

lemma cost_table_group_6:
  "present (group_values (Category_col cost_table) (Unit_Cost_parsed example_str cost_table)
      (Category_col cost_table ! 6)) = []"
  by (simp add: cost_table_cats cost_table_parsed group_values_def present_def)

lemma cost_table_present:
  "present (Unit_Cost_by_category example_str cost_table) =
     [Fin 10, Fin 20, Fin 30, Fin 20, Fin 100, Fin 200]"
  by (simp add: cost_table_by_category present_def)


theorem C4_median_imputation_witness:
  "Unit_Cost (clean_supply_chain_data example_str cost_table ! 3) = Fin 20 \<and>
   Unit_Cost (clean_supply_chain_data example_str cost_table ! 6) = Fin 25 \<and>
   Unit_Cost (clean_supply_chain_data example_str cost_table ! 4) = Fin 100"
proof -
  note h = C4_median_imputation [of cost_table example_str "''Tools''"]
  have l3: "3 < length cost_table" and l6: "6 < length cost_table" and l4: "4 < length cost_table"
    by (simp_all add: cost_table_def)
  have n3: "Unit_Cost_parsed example_str cost_table ! 3 = NaN"
    and n6: "Unit_Cost_parsed example_str cost_table ! 6 = NaN"
    and n4: "Unit_Cost_parsed example_str cost_table ! 4 = Fin 100"
    by (simp_all add: cost_table_parsed)
  have a3: "ascending [Fin 10, Fin 20, Fin 30]" by (simp add: ascending_def)
  have a6: "ascending [Fin 10, Fin 20, Fin 20, Fin 30, Fin 100, Fin 200]"
    by (simp add: ascending_def)
  have m6: "mset [Fin 10, Fin 20, Fin 20, Fin 30, Fin 100, Fin 200] =
      mset (present (Unit_Cost_by_category example_str cost_table))"
    by (simp add: cost_table_present)
  from h have tier1: "\<forall>i<length cost_table. \<forall>ys.
      Unit_Cost_parsed example_str cost_table ! i = NaN \<and>
      present (group_values (Category_col cost_table) (Unit_Cost_parsed example_str cost_table)
                 (Category_col cost_table ! i)) \<noteq> [] \<and>
      mset ys = mset (present (group_values (Category_col cost_table)
                                 (Unit_Cost_parsed example_str cost_table)
                                 (Category_col cost_table ! i))) \<and> ascending ys \<longrightarrow>
      Unit_Cost (clean_supply_chain_data example_str cost_table ! i) = middle_value ys"
    by blast
  from tier1 [rule_format, of 3 "[Fin 10, Fin 20, Fin 30]"] l3 n3 a3
  have "Unit_Cost (clean_supply_chain_data example_str cost_table ! 3) =
      middle_value [Fin 10, Fin 20, Fin 30]"
    by (simp add: cost_table_group_3)
  then have r3: "Unit_Cost (clean_supply_chain_data example_str cost_table ! 3) = Fin 20"
    by (simp add: middle_value_def)
  from h have tier2: "\<forall>i<length cost_table. \<forall>zs.
      Unit_Cost_parsed example_str cost_table ! i = NaN \<and>
      present (group_values (Category_col cost_table) (Unit_Cost_parsed example_str cost_table)
                 (Category_col cost_table ! i)) = [] \<and>
      mset zs = mset (present (Unit_Cost_by_category example_str cost_table)) \<and> ascending zs \<longrightarrow>
      Unit_Cost (clean_supply_chain_data example_str cost_table ! i) = middle_value zs"
    by blast
  from tier2 [rule_format, of 6 "[Fin 10, Fin 20, Fin 20, Fin 30, Fin 100, Fin 200]"] l6 n6 a6 m6
  have "Unit_Cost (clean_supply_chain_data example_str cost_table ! 6) =
      middle_value [Fin 10, Fin 20, Fin 20, Fin 30, Fin 100, Fin 200]"
    by (simp add: cost_table_group_6)
  then have r6: "Unit_Cost (clean_supply_chain_data example_str cost_table ! 6) = Fin 25"
    by (simp add: middle_value_def ovf_def DBL_OVERFLOW_def)
  from h have kept: "\<forall>i<length cost_table. Unit_Cost_parsed example_str cost_table ! i \<noteq> NaN \<longrightarrow>
      Unit_Cost (clean_supply_chain_data example_str cost_table ! i) =
      Unit_Cost_parsed example_str cost_table ! i"
    by blast
  from kept [rule_format, of 4] l4 n4
  have r4: "Unit_Cost (clean_supply_chain_data example_str cost_table ! 4) = Fin 100" by simp
  from r3 r6 r4 show ?thesis by blast
qed


text \<open>
  The claim as it was stated fails where the global median is read as the median of the
  parsed costs: in the example table the parsed costs are 10, 20, 30, 100 and 200, with
  median 30, and the cell of the category without a cost is filled with 25, the median
  of 10, 20, 30, 20, 100 and 200.
\<close>

theorem C4_counterexample:
  "Unit_Cost_parsed example_str cost_table ! 6 = NaN \<and>
   present (group_values (Category_col cost_table) (Unit_Cost_parsed example_str cost_table)
      (Category_col cost_table ! 6)) = [] \<and>
   present (Unit_Cost_parsed example_str cost_table) = [Fin 10, Fin 20, Fin 30, Fin 100, Fin 200] \<and>
   median (Unit_Cost_parsed example_str cost_table) = Fin 30 \<and>
   Unit_Cost (clean_supply_chain_data example_str cost_table ! 6) = Fin 25"
proof -
  have l6: "6 < length cost_table" by (simp add: cost_table_def)
  have n6: "Unit_Cost_parsed example_str cost_table ! 6 = NaN" by (simp add: cost_table_parsed)
  have p: "present (Unit_Cost_parsed example_str cost_table) =
      [Fin 10, Fin 20, Fin 30, Fin 100, Fin 200]"
    by (simp add: cost_table_parsed present_def)
  have m: "median (Unit_Cost_parsed example_str cost_table) = Fin 30"
    by (simp add: cost_table_parsed median_def isna_def)
  have u: "Unit_Cost (clean_supply_chain_data example_str cost_table ! 6) = Fin 25"
    using l6 by (simp add: clean_nth Unit_Cost_nth cost_table_by_category median_def isna_def
        ovf_def DBL_OVERFLOW_def)
  from n6 cost_table_group_6 p m u show ?thesis by blast
qed

section \<open>Clamping and the derived columns\<close>

lemma clip_lower_nan [simp]: "clip_lower l NaN = NaN"
  by (simp add: clip_lower_def)

lemma clip_lower_ge: "v \<noteq> NaN \<Longrightarrow> fge (clip_lower (Fin l) v) (Fin l)"
  by (cases v) (auto simp: clip_lower_def fge_def)

lemma clip_lower_nan_iff: "clip_lower (Fin l) v = NaN \<longleftrightarrow> v = NaN"
  by (cases v) (auto simp: clip_lower_def)

lemma clip_lower_number:
  "is_number v \<Longrightarrow> \<exists>q. clip_lower (Fin l) v = Fin q \<and> l \<le> q"
  by (cases v) (auto simp: clip_lower_def)

lemma Current_Stock_ge: "i < length df \<Longrightarrow> fge (Current_Stock_col df ! i) (Fin 0)"
  by (cases "to_numeric (Current_Stock_Raw (df ! i))") (auto simp: Current_Stock_nth Let_def)

lemma Daily_Demand_Est_nth:
  "i < length df \<Longrightarrow> Daily_Demand_Est_col df ! i = clip_lower (Fin 0) (Daily_Demand_Est (df ! i))"
  by (simp add: Daily_Demand_Est_col_def)

lemma Safety_Stock_Target_nth:
  "i < length df \<Longrightarrow>
   Safety_Stock_Target_col df ! i = clip_lower (Fin 0) (Safety_Stock_Target (df ! i))"
  by (simp add: Safety_Stock_Target_col_def)

lemma Lead_Time_Days_nth:
  "i < length df \<Longrightarrow> Lead_Time_Days_col df ! i = clip_lower (Fin 1) (Lead_Time_Days (df ! i))"
  by (simp add: Lead_Time_Days_col_def)

lemma ovf_not_nan [simp]: "ovf q \<noteq> NaN"
  by (simp add: ovf_def)

lemma reorder_point_numbers:
  assumes "0 \<le> a" and "1 \<le> b" and "0 \<le> c"
  shows "reorder_point (Fin a) (Fin b) (Fin c) \<noteq> NaN"
proof -
  from assms have "0 \<le> a * b" by simp
  from ovf_nonneg [OF this] show ?thesis
    by (auto simp: reorder_point_def)
qed

lemma inventory_nan_iff:
  assumes "fge s (Fin 0)" and "u = NaN \<or> fge u (Fin 0)"
  shows "fmul s u = NaN \<longleftrightarrow> u = NaN \<or> (s = Fin 0 \<and> u = PInf) \<or> (s = PInf \<and> u = Fin 0)"
  using assms by (cases s; cases u) (auto simp: fge_zero_iff inf_of_sign_def)

section \<open>Ranges and missing values of the cleaned table\<close>

text \<open>
  Claim C6, as amended. In every row of the cleaned table Current_Stock is at least 0;
  Lead_Time_Days is at least 1 and Safety_Stock_Target at least 0 wherever the input
  cell is present; Unit_Cost is not negative wherever it is present, and it is present
  in every row as soon as one raw cost of the table parses: it is missing, and then in
  every row, exactly when no raw cost of the table parses.
\<close>

theorem C6_cleaned_ranges:
  "\<forall>i<length df.
     fge (Current_Stock (clean_supply_chain_data py_str df ! i)) (Fin 0) \<and>
     (Lead_Time_Days (df ! i) \<noteq> NaN \<longrightarrow>
        fge (Lead_Time_Days (clean_supply_chain_data py_str df ! i)) (Fin 1)) \<and>
     (Safety_Stock_Target (df ! i) \<noteq> NaN \<longrightarrow>
        fge (Safety_Stock_Target (clean_supply_chain_data py_str df ! i)) (Fin 0)) \<and>
     (Unit_Cost (clean_supply_chain_data py_str df ! i) \<noteq> NaN \<longrightarrow>
        fge (Unit_Cost (clean_supply_chain_data py_str df ! i)) (Fin 0)) \<and>
     (Unit_Cost (clean_supply_chain_data py_str df ! i) = NaN \<longleftrightarrow>
        (\<forall>j<length df. clean_cost py_str (Unit_Cost_Raw (df ! j)) = NaN))"
proof (intro allI impI)
  fix i assume i: "i < length df"
  have a: "fge (Current_Stock (clean_supply_chain_data py_str df ! i)) (Fin 0)"
    using i by (simp add: clean_nth Current_Stock_ge)
  have b: "Lead_Time_Days (df ! i) \<noteq> NaN \<longrightarrow>
        fge (Lead_Time_Days (clean_supply_chain_data py_str df ! i)) (Fin 1)"
    using i by (simp add: clean_nth Lead_Time_Days_nth clip_lower_ge)
  have c: "Safety_Stock_Target (df ! i) \<noteq> NaN \<longrightarrow>
        fge (Safety_Stock_Target (clean_supply_chain_data py_str df ! i)) (Fin 0)"
    using i by (simp add: clean_nth Safety_Stock_Target_nth clip_lower_ge)
  have d: "Unit_Cost (clean_supply_chain_data py_str df ! i) \<noteq> NaN \<longrightarrow>
        fge (Unit_Cost (clean_supply_chain_data py_str df ! i)) (Fin 0)"
    using i Unit_Cost_ok [OF i, of py_str] by (auto simp: clean_nth)
  have e: "Unit_Cost (clean_supply_chain_data py_str df ! i) = NaN \<longleftrightarrow>
        (\<forall>j<length df. clean_cost py_str (Unit_Cost_Raw (df ! j)) = NaN)"
    using i Unit_Cost_null_iff [OF i, of py_str] by (simp add: clean_nth parsed_nth)
  from a b c d e show
    "fge (Current_Stock (clean_supply_chain_data py_str df ! i)) (Fin 0) \<and>
     (Lead_Time_Days (df ! i) \<noteq> NaN \<longrightarrow>
        fge (Lead_Time_Days (clean_supply_chain_data py_str df ! i)) (Fin 1)) \<and>
     (Safety_Stock_Target (df ! i) \<noteq> NaN \<longrightarrow>
        fge (Safety_Stock_Target (clean_supply_chain_data py_str df ! i)) (Fin 0)) \<and>
     (Unit_Cost (clean_supply_chain_data py_str df ! i) \<noteq> NaN \<longrightarrow>
        fge (Unit_Cost (clean_supply_chain_data py_str df ! i)) (Fin 0)) \<and>
     (Unit_Cost (clean_supply_chain_data py_str df ! i) = NaN \<longleftrightarrow>
        (\<forall>j<length df. clean_cost py_str (Unit_Cost_Raw (df ! j)) = NaN))"
    by blast
qed

theorem C6_cleaned_ranges_witness:
  "fge (Current_Stock (clean_supply_chain_data example_str [row_pending, row_plain] ! 0)) (Fin 0) \<and>
   fge (Lead_Time_Days (clean_supply_chain_data example_str [row_pending, row_plain] ! 0)) (Fin 1) \<and>
   fge (Safety_Stock_Target (clean_supply_chain_data example_str [row_pending, row_plain] ! 0)) (Fin 0) \<and>
   fge (Unit_Cost (clean_supply_chain_data example_str [row_pending, row_plain] ! 0)) (Fin 0)"
proof -
  note h = C6_cleaned_ranges [of "[row_pending, row_plain]" example_str]
  have l: "Lead_Time_Days ([row_pending, row_plain] ! 0) \<noteq> NaN" by (simp add: row_pending_def)
  have s: "Safety_Stock_Target ([row_pending, row_plain] ! 0) \<noteq> NaN" by (simp add: row_pending_def)
  have p: "clean_cost example_str (Unit_Cost_Raw ([row_pending, row_plain] ! 1)) \<noteq> NaN"
    by (simp add: row_plain_def cost_eval)
  have "1 < length [row_pending, row_plain]" by simp
  with p have "\<not> (\<forall>j<length [row_pending, row_plain].
      clean_cost example_str (Unit_Cost_Raw ([row_pending, row_plain] ! j)) = NaN)" by blast
  with h have u: "Unit_Cost (clean_supply_chain_data example_str [row_pending, row_plain] ! 0) \<noteq> NaN"
    by simp
  from h l s u show ?thesis by simp
qed

text \<open>
  The claim as it was stated fails: in a table whose only raw cost is "Quote Pending"
  there is no median to fill with, and Unit_Cost stays missing.
\<close>

theorem C6_counterexample:
  "Unit_Cost (clean_supply_chain_data example_str [row_pending] ! 0) = NaN"
  by (simp add: clean_nth Unit_Cost_null_iff parsed_nth row_pending_def cost_eval)

lemma Product_ID_nth: "i < length df \<Longrightarrow> Product_ID_col df ! i = strip (Product_ID (df ! i))"
  by (simp add: Product_ID_col_def)

lemma Vendor_Name_nth: "i < length df \<Longrightarrow> Vendor_Name_col df ! i = strip (Vendor_Name (df ! i))"
  by (simp add: Vendor_Name_col_def)

lemma stock_status_labels:
  "stock_status s r = ''Out of Stock'' \<or> stock_status s r = ''Low Stock'' \<or>
   stock_status s r = ''Normal Stock''"
  by (simp add: stock_status_def)

text \<open>
  Claim C1, as amended. For an input table that conforms to the raw schema (text in
  every Product_ID, Category and Vendor_Name cell, numbers in Safety_Stock_Target and
  Lead_Time_Days, a number or nothing in Daily_Demand_Est), in every output row:
  Current_Stock is present and at least 0, Safety_Stock_Target is at least 0 and
  Lead_Time_Days at least 1; Daily_Demand_Est is missing exactly where the input demand
  is missing and at least 0 elsewhere, and Reorder_Point is missing in exactly the same
  rows; Unit_Cost is missing exactly when no raw cost of the table parses;
  Inventory_Value is missing exactly where Unit_Cost is missing or the product is one
  of zero and infinity; Product_ID and Vendor_Name are the input text trimmed, Category
  is the input text trimmed and capitalized, and Stock_Status is one of the three
  labels.
\<close>

theorem C1_output_nulls:
  assumes "\<forall>r\<in>set df. conforms r"
  shows "\<forall>i<length df.
     Current_Stock (clean_supply_chain_data py_str df ! i) \<noteq> NaN \<and>
     fge (Current_Stock (clean_supply_chain_data py_str df ! i)) (Fin 0) \<and>
     fge (Safety_Stock_Target (clean_supply_chain_data py_str df ! i)) (Fin 0) \<and>
     fge (Lead_Time_Days (clean_supply_chain_data py_str df ! i)) (Fin 1) \<and>
     (Daily_Demand_Est (clean_supply_chain_data py_str df ! i) = NaN \<longleftrightarrow>
        Daily_Demand_Est (df ! i) = NaN) \<and>
     (Daily_Demand_Est (df ! i) \<noteq> NaN \<longrightarrow>
        fge (Daily_Demand_Est (clean_supply_chain_data py_str df ! i)) (Fin 0)) \<and>
     (Reorder_Point (clean_supply_chain_data py_str df ! i) = NaN \<longleftrightarrow>
        Daily_Demand_Est (df ! i) = NaN) \<and>
     (Unit_Cost (clean_supply_chain_data py_str df ! i) = NaN \<longleftrightarrow>
        (\<forall>j<length df. clean_cost py_str (Unit_Cost_Raw (df ! j)) = NaN)) \<and>
     (Inventory_Value (clean_supply_chain_data py_str df ! i) = NaN \<longleftrightarrow>
        Unit_Cost (clean_supply_chain_data py_str df ! i) = NaN \<or>
        (Current_Stock (clean_supply_chain_data py_str df ! i) = Fin 0 \<and>
         Unit_Cost (clean_supply_chain_data py_str df ! i) = PInf) \<or>
        (Current_Stock (clean_supply_chain_data py_str df ! i) = PInf \<and>
         Unit_Cost (clean_supply_chain_data py_str df ! i) = Fin 0)) \<and>
     Product_ID (clean_supply_chain_data py_str df ! i) = strip (Product_ID (df ! i)) \<and>
     Vendor_Name (clean_supply_chain_data py_str df ! i) = strip (Vendor_Name (df ! i)) \<and>
     Category (clean_supply_chain_data py_str df ! i) = capitalize (strip (Category (df ! i))) \<and>
     (Stock_Status (clean_supply_chain_data py_str df ! i) = ''Out of Stock'' \<or>
      Stock_Status (clean_supply_chain_data py_str df ! i) = ''Low Stock'' \<or>
      Stock_Status (clean_supply_chain_data py_str df ! i) = ''Normal Stock'')"
proof (intro allI impI)
  fix i assume i: "i < length df"
  let ?o = "clean_supply_chain_data py_str df ! i"
  from i assms have cf: "conforms (df ! i)" by simp
  then obtain b c where lead: "Lead_Time_Days_col df ! i = Fin b" "1 \<le> b"
    and safety: "Safety_Stock_Target_col df ! i = Fin c" "0 \<le> c"
    using i clip_lower_number [of "Lead_Time_Days (df ! i)" 1]
      clip_lower_number [of "Safety_Stock_Target (df ! i)" 0]
    by (auto simp: conforms_def Lead_Time_Days_nth Safety_Stock_Target_nth)
  have cs: "fge (Current_Stock ?o) (Fin 0)" using i by (simp add: clean_nth Current_Stock_ge)
  then have cs0: "Current_Stock ?o \<noteq> NaN" by (rule fge_not_nan)
  have ss: "fge (Safety_Stock_Target ?o) (Fin 0)" using i safety by (simp add: clean_nth)
  have lt: "fge (Lead_Time_Days ?o) (Fin 1)" using i lead by (simp add: clean_nth)
  have dn: "Daily_Demand_Est ?o = NaN \<longleftrightarrow> Daily_Demand_Est (df ! i) = NaN"
    using i by (simp add: clean_nth Daily_Demand_Est_nth clip_lower_nan_iff)
  have dg: "Daily_Demand_Est (df ! i) \<noteq> NaN \<longrightarrow> fge (Daily_Demand_Est ?o) (Fin 0)"
    using i by (simp add: clean_nth Daily_Demand_Est_nth clip_lower_ge)
  have rp: "Reorder_Point ?o = NaN \<longleftrightarrow> Daily_Demand_Est (df ! i) = NaN"
  proof (cases "Daily_Demand_Est (df ! i) = NaN")
    case True
    with i show ?thesis
      by (simp add: clean_nth Reorder_Point_nth Daily_Demand_Est_nth reorder_point_def)
  next
    case False
    with cf have "is_number (Daily_Demand_Est (df ! i))" by (simp add: conforms_def isna_def)
    from clip_lower_number [OF this, of 0] obtain a
      where "clip_lower (Fin 0) (Daily_Demand_Est (df ! i)) = Fin a" "0 \<le> a" by blast
    with i lead safety False reorder_point_numbers [of a b c] show ?thesis
      by (simp add: clean_nth Reorder_Point_nth Daily_Demand_Est_nth)
  qed
  have uc: "Unit_Cost ?o = NaN \<longleftrightarrow> (\<forall>j<length df. clean_cost py_str (Unit_Cost_Raw (df ! j)) = NaN)"
    using i Unit_Cost_null_iff [OF i, of py_str] by (simp add: clean_nth parsed_nth)
  have iv: "Inventory_Value ?o = NaN \<longleftrightarrow>
        Unit_Cost ?o = NaN \<or> (Current_Stock ?o = Fin 0 \<and> Unit_Cost ?o = PInf) \<or>
        (Current_Stock ?o = PInf \<and> Unit_Cost ?o = Fin 0)"
    using i inventory_nan_iff [OF Current_Stock_ge [OF i] Unit_Cost_ok [OF i], of py_str]
    by (simp add: clean_nth Inventory_Value_nth)
  have pid: "Product_ID ?o = strip (Product_ID (df ! i))"
    using i by (simp add: clean_nth Product_ID_nth)
  have ven: "Vendor_Name ?o = strip (Vendor_Name (df ! i))"
    using i by (simp add: clean_nth Vendor_Name_nth)
  have cat: "Category ?o = capitalize (strip (Category (df ! i)))"
    using i by (simp add: clean_nth Category_nth normalize_category_def)
  have st: "Stock_Status ?o = ''Out of Stock'' \<or> Stock_Status ?o = ''Low Stock'' \<or>
      Stock_Status ?o = ''Normal Stock''"
    using i stock_status_labels [of "Current_Stock_col df ! i" "Reorder_Point_col df ! i"]
    by (simp add: clean_nth Stock_Status_nth)
  from cs0 cs ss lt dn dg rp uc iv pid ven cat st show
    "Current_Stock ?o \<noteq> NaN \<and> fge (Current_Stock ?o) (Fin 0) \<and>
     fge (Safety_Stock_Target ?o) (Fin 0) \<and> fge (Lead_Time_Days ?o) (Fin 1) \<and>
     (Daily_Demand_Est ?o = NaN \<longleftrightarrow> Daily_Demand_Est (df ! i) = NaN) \<and>
     (Daily_Demand_Est (df ! i) \<noteq> NaN \<longrightarrow> fge (Daily_Demand_Est ?o) (Fin 0)) \<and>
     (Reorder_Point ?o = NaN \<longleftrightarrow> Daily_Demand_Est (df ! i) = NaN) \<and>
     (Unit_Cost ?o = NaN \<longleftrightarrow> (\<forall>j<length df. clean_cost py_str (Unit_Cost_Raw (df ! j)) = NaN)) \<and>
     (Inventory_Value ?o = NaN \<longleftrightarrow>
        Unit_Cost ?o = NaN \<or> (Current_Stock ?o = Fin 0 \<and> Unit_Cost ?o = PInf) \<or>
        (Current_Stock ?o = PInf \<and> Unit_Cost ?o = Fin 0)) \<and>
     Product_ID ?o = strip (Product_ID (df ! i)) \<and>
     Vendor_Name ?o = strip (Vendor_Name (df ! i)) \<and>
     Category ?o = capitalize (strip (Category (df ! i))) \<and>
     (Stock_Status ?o = ''Out of Stock'' \<or> Stock_Status ?o = ''Low Stock'' \<or>
      Stock_Status ?o = ''Normal Stock'')"
    by blast
qed

theorem C1_output_nulls_witness:
  "list_all conforms [row_pending, row_plain] \<and>
   Daily_Demand_Est (clean_supply_chain_data example_str [row_pending, row_plain] ! 1) \<noteq> NaN \<and>
   Reorder_Point (clean_supply_chain_data example_str [row_pending, row_plain] ! 1) \<noteq> NaN \<and>
   Unit_Cost (clean_supply_chain_data example_str [row_pending, row_plain] ! 1) \<noteq> NaN \<and>
   fge (Lead_Time_Days (clean_supply_chain_data example_str [row_pending, row_plain] ! 1)) (Fin 1) \<and>
   Product_ID (clean_supply_chain_data example_str [row_pending, row_plain] ! 0) = ''SKU-A1001''"
proof -
  have c: "\<forall>r\<in>set [row_pending, row_plain]. conforms r"
    by (simp add: conforms_def row_pending_def row_plain_def isna_def)
  note h = C1_output_nulls [OF c, of example_str]
  have d: "Daily_Demand_Est ([row_pending, row_plain] ! 1) \<noteq> NaN" by (simp add: row_plain_def)
  have p: "clean_cost example_str (Unit_Cost_Raw ([row_pending, row_plain] ! 1)) \<noteq> NaN"
    by (simp add: row_plain_def cost_eval)
  have "1 < length [row_pending, row_plain]" by simp
  with p have n: "\<not> (\<forall>j<length [row_pending, row_plain].
      clean_cost example_str (Unit_Cost_Raw ([row_pending, row_plain] ! j)) = NaN)" by blast
  from c have "list_all conforms [row_pending, row_plain]" by (simp add: list_all_iff)
  moreover from h d have
    "Daily_Demand_Est (clean_supply_chain_data example_str [row_pending, row_plain] ! 1) \<noteq> NaN"
    "Reorder_Point (clean_supply_chain_data example_str [row_pending, row_plain] ! 1) \<noteq> NaN"
    "fge (Lead_Time_Days (clean_supply_chain_data example_str [row_pending, row_plain] ! 1)) (Fin 1)"
    by simp_all
  moreover from h n have
    "Unit_Cost (clean_supply_chain_data example_str [row_pending, row_plain] ! 1) \<noteq> NaN"
    by simp
  moreover from h have
    "Product_ID (clean_supply_chain_data example_str [row_pending, row_plain] ! 0) =
     strip (Product_ID ([row_pending, row_plain] ! 0))"
    by simp
  then have
    "Product_ID (clean_supply_chain_data example_str [row_pending, row_plain] ! 0) = ''SKU-A1001''"
    by (simp add: row_pending_def strip_def isspace_def)
  ultimately show ?thesis by simp
qed

text \<open>
  The claim as it was stated fails: a conforming row whose demand is missing keeps a
  missing Daily_Demand_Est, and its Reorder_Point is missing.
\<close>

theorem C1_counterexample:
  "list_all conforms [row_pending] \<and>
   Daily_Demand_Est (clean_supply_chain_data example_str [row_pending] ! 0) = NaN \<and>
   Reorder_Point (clean_supply_chain_data example_str [row_pending] ! 0) = NaN"
  by (simp add: clean_nth Daily_Demand_Est_nth Reorder_Point_nth reorder_point_def conforms_def
      row_pending_def isna_def)

end
